theory Spec2Isabelle
  imports Main "HOL-Library.Word"
begin

unbundle bit_operations_syntax

section \<open>The two-wire peripheral and the state of \<^verbatim>\<open>lib/twi.c\<close>\<close>

type_synonym byte = "8 word"
type_synonym ptr = "16 word"

text \<open>
  The register block of one TWI peripheral (\<^verbatim>\<open>TWI_t\<close> of the device header), with the
  registers that \<^verbatim>\<open>twi.c\<close> touches. A register is a cell: the handlers read what the
  hardware left there and write commands into it.
\<close>

record TWI_t =
  MCTRLA :: byte
  MCTRLB :: byte
  MSTATUS :: byte
  MADDR :: byte
  MDATA :: byte
  SADDR :: byte
  SADDRMASK :: byte
  SCTRLA :: byte
  SCTRLB :: byte
  SSTATUS :: byte
  SDATA :: byte

text \<open>
  The file-level statics of \<^verbatim>\<open>twi.c\<close> together with both peripherals and the data
  memory the master engine's buffer pointers point into. Pointers are 16-bit data-space
  addresses; the null pointer is 0. The source's names end in an underscore
  (\<^verbatim>\<open>txbuf_\<close>, \<^verbatim>\<open>twi_lastResult_\<close>, \<^verbatim>\<open>s_lastAddress_\<close>), which a field name cannot, so
  it is dropped here. \<open>is1st\<close> and \<open>is1st_1\<close> are the function-level statics of the two
  slave interrupt handlers.
\<close>

record twi =
  TWI0 :: TWI_t
  TWI1 :: TWI_t
  txbuf :: ptr
  txbufEnd :: ptr
  txbuf2 :: ptr
  txbuf2End :: ptr
  rxbuf :: ptr
  rxbufEnd :: ptr
  twi_lastResult :: bool
  s_lastAddress :: byte
  is1st :: bool
  s1_lastAddress :: byte
  is1st_1 :: bool
  ram :: "ptr \<Rightarrow> byte"

subsection \<open>The local enums\<close>

definition ACK :: byte where "ACK = 0"
definition READ :: byte where "READ = 2"
definition STOP :: byte where "STOP = 3"
definition NACK :: byte where "NACK = 4"
definition FLUSH :: byte where "FLUSH = 8"

definition RIF :: byte where "RIF = 0x80"
definition WIF :: byte where "WIF = 0x40"
definition CLKHOLD :: byte where "CLKHOLD = 0x20"
definition RXNACK :: byte where "RXNACK = 0x10"
definition ARBLOST :: byte where "ARBLOST = 0x8"
definition BUSERR :: byte where "BUSERR = 0x4"

definition ALLFLAGS :: byte where "ALLFLAGS = RIF OR WIF OR CLKHOLD OR ARBLOST OR BUSERR"
definition ANYERR :: byte where "ANYERR = ARBLOST OR BUSERR"
definition RIEN :: byte where "RIEN = RIF"
definition WIEN :: byte where "WIEN = WIF"
definition RWIEN :: byte where "RWIEN = RIEN OR WIEN"
definition RW :: byte where "RW = 1"

definition UNKNOWN :: byte where "UNKNOWN = 0"
definition IDLE :: byte where "IDLE = 1"
definition OWNER :: byte where "OWNER = 2"
definition BUSBUSY :: byte where "BUSBUSY = 3"
definition BUSMASK :: byte where "BUSMASK = 3"

definition READOK :: byte where "READOK = RIF OR CLKHOLD OR OWNER"
definition WRITEOK :: byte where "WRITEOK = WIF OR CLKHOLD OR OWNER"
definition ENABLE :: byte where "ENABLE = 1"

lemmas twim_enum_defs =
  ACK_def READ_def STOP_def NACK_def FLUSH_def RIF_def WIF_def CLKHOLD_def RXNACK_def
  ARBLOST_def BUSERR_def ALLFLAGS_def ANYERR_def RIEN_def WIEN_def RWIEN_def RW_def
  UNKNOWN_def IDLE_def OWNER_def BUSBUSY_def BUSMASK_def READOK_def WRITEOK_def ENABLE_def

subsection \<open>twim: the master engine of TWI0, private part\<close>

definition m_on :: "'a twi_scheme \<Rightarrow> 'a twi_scheme" where
  "m_on s = s\<lparr>TWI0 := (TWI0 s)\<lparr>MCTRLA := MCTRLA (TWI0 s) OR ENABLE\<rparr>\<rparr>"

definition m_off :: "'a twi_scheme \<Rightarrow> 'a twi_scheme" where
  "m_off s = s\<lparr>TWI0 := (TWI0 s)\<lparr>MCTRLA := 0\<rparr>\<rparr>"

definition m_irqAllOn :: "'a twi_scheme \<Rightarrow> 'a twi_scheme" where
  "m_irqAllOn s = s\<lparr>TWI0 := (TWI0 s)\<lparr>MCTRLA := MCTRLA (TWI0 s) OR RWIEN\<rparr>\<rparr>"

definition m_irqAllOff :: "'a twi_scheme \<Rightarrow> 'a twi_scheme" where
  "m_irqAllOff s = s\<lparr>TWI0 := (TWI0 s)\<lparr>MCTRLA := MCTRLA (TWI0 s) AND NOT RWIEN\<rparr>\<rparr>"

definition m_toStateIdle :: "'a twi_scheme \<Rightarrow> 'a twi_scheme" where
  "m_toStateIdle s = s\<lparr>TWI0 := (TWI0 s)\<lparr>MSTATUS := ALLFLAGS OR IDLE\<rparr>\<rparr>"

definition m_ackActionACK :: "'a twi_scheme \<Rightarrow> 'a twi_scheme" where
  "m_ackActionACK s = s\<lparr>TWI0 := (TWI0 s)\<lparr>MCTRLB := ACK\<rparr>\<rparr>"

definition m_ACKread :: "'a twi_scheme \<Rightarrow> 'a twi_scheme" where
  "m_ACKread s = s\<lparr>TWI0 := (TWI0 s)\<lparr>MCTRLB := READ\<rparr>\<rparr>"

definition m_NACKstop :: "'a twi_scheme \<Rightarrow> 'a twi_scheme" where
  "m_NACKstop s = s\<lparr>TWI0 := (TWI0 s)\<lparr>MCTRLB := NACK OR STOP\<rparr>\<rparr>"

definition m_address :: "byte \<Rightarrow> 'a twi_scheme \<Rightarrow> 'a twi_scheme" where
  "m_address v s = (let s1 = m_off s in s1\<lparr>TWI0 := (TWI0 s1)\<lparr>MADDR := push_bit 1 v\<rparr>\<rparr>)"

definition m_startRead :: "'a twi_scheme \<Rightarrow> 'a twi_scheme" where
  "m_startRead s =
     (let s1 = m_ackActionACK s in s1\<lparr>TWI0 := (TWI0 s1)\<lparr>MADDR := MADDR (TWI0 s1) OR RW\<rparr>\<rparr>)"

definition m_startWrite :: "'a twi_scheme \<Rightarrow> 'a twi_scheme" where
  "m_startWrite s = s\<lparr>TWI0 := (TWI0 s)\<lparr>MADDR := MADDR (TWI0 s) AND NOT RW\<rparr>\<rparr>"

definition m_write :: "byte \<Rightarrow> 'a twi_scheme \<Rightarrow> 'a twi_scheme" where
  "m_write v s = s\<lparr>TWI0 := (TWI0 s)\<lparr>MDATA := v\<rparr>\<rparr>"

definition m_read :: "'a twi_scheme \<Rightarrow> byte" where
  "m_read s = MDATA (TWI0 s)"

definition m_status :: "'a twi_scheme \<Rightarrow> byte" where
  "m_status s = MSTATUS (TWI0 s)"


text \<open>Start a read or a write and enable the interrupt.\<close>

definition m_startIrq :: "bool \<Rightarrow> 'a twi_scheme \<Rightarrow> 'a twi_scheme" where
  "m_startIrq wr s =
     (let s1 = (if wr then m_startWrite s else m_startRead s);
          s2 = s1\<lparr>twi_lastResult := False\<rparr>
      in m_irqAllOn s2)"

text \<open>
  The user's completion callback \<^verbatim>\<open>twim_isrCallback_\<close> is a function pointer, null when
  none is registered. It may do anything to the state (start the next transfer, for
  one), so it is a state transformer, and the value of the pointer is a parameter of
  the functions that read it.
\<close>

type_synonym 'a twim_callbackT = "('a twi_scheme \<Rightarrow> 'a twi_scheme) option"

definition call_twim_callback :: "'a twim_callbackT \<Rightarrow> 'a twi_scheme \<Rightarrow> 'a twi_scheme" where
  "call_twim_callback cb s = (case cb of None \<Rightarrow> s | Some f \<Rightarrow> f s)"

definition m_finished :: "'a twim_callbackT \<Rightarrow> bool \<Rightarrow> 'a twi_scheme \<Rightarrow> 'a twi_scheme" where
  "m_finished cb tf s =
     (let s1 = s\<lparr>twi_lastResult := tf\<rparr>;
          s2 = m_NACKstop s1;
          s3 = m_irqAllOff s2
      in call_twim_callback cb s3)"

text \<open>
  The completion interrupt \<^verbatim>\<open>ISR(TWI0_TWIM_vect)\<close>. The status is read once. A store
  through \<open>rxbuf\<close> goes to data memory at that address, whatever it is (the device has
  no memory protection).
\<close>

definition TWI0_TWIM_vect :: "'a twim_callbackT \<Rightarrow> 'a twi_scheme \<Rightarrow> 'a twi_scheme" where
  "TWI0_TWIM_vect cb s =
     (let st = m_status s in
      if st AND ANYERR \<noteq> 0 then m_finished cb False s
      else if st = READOK then
        (let s1 = s\<lparr>ram := (ram s)(rxbuf s := m_read s), rxbuf := rxbuf s + 1\<rparr>
         in if rxbuf s1 < rxbufEnd s1 then m_ACKread s1 else m_finished cb True s1)
      else if st = WRITEOK then
        (if txbuf s < txbufEnd s
           then m_write (ram s (txbuf s)) (s\<lparr>txbuf := txbuf s + 1\<rparr>)
         else if txbuf2 s < txbuf2End s
           then m_write (ram s (txbuf2 s)) (s\<lparr>txbuf2 := txbuf2 s + 1\<rparr>)
         else if rxbuf s \<noteq> 0 then m_startRead s
         else m_finished cb True s)
      else m_finished cb False s)"

subsection \<open>twim: public part\<close>

definition twim_off :: "'a twi_scheme \<Rightarrow> 'a twi_scheme" where
  "twim_off s = m_off s"

definition twim_on :: "byte \<Rightarrow> 'a twi_scheme \<Rightarrow> 'a twi_scheme" where
  "twim_on addr s = m_on (m_toStateIdle (m_address addr s))"



definition twim_writeRead :: "ptr \<Rightarrow> 16 word \<Rightarrow> ptr \<Rightarrow> 16 word \<Rightarrow> 'a twi_scheme \<Rightarrow> 'a twi_scheme" where
  "twim_writeRead wbuf wn rbuf rn s =
     m_startIrq (wn \<noteq> 0)
       (s\<lparr>txbuf := wbuf, txbufEnd := wbuf + wn,
          rxbuf := rbuf, rxbufEnd := rbuf + rn,
          txbuf2 := 0, txbuf2End := 0\<rparr>)"

definition twim_writeWrite :: "ptr \<Rightarrow> 16 word \<Rightarrow> ptr \<Rightarrow> 16 word \<Rightarrow> 'a twi_scheme \<Rightarrow> 'a twi_scheme" where
  "twim_writeWrite wbuf wn wbuf2 wn2 s =
     m_startIrq True
       (s\<lparr>txbuf := wbuf, txbufEnd := wbuf + wn,
          txbuf2 := wbuf2, txbuf2End := wbuf2 + wn2,
          rxbuf := 0, rxbufEnd := 0\<rparr>)"


definition twim_read :: "ptr \<Rightarrow> 16 word \<Rightarrow> 'a twi_scheme \<Rightarrow> 'a twi_scheme" where
  "twim_read rbuf rn s = twim_writeRead 0 0 rbuf rn s"






subsection \<open>twis: the slave engines, private part\<close>

definition s_gencall :: "byte \<Rightarrow> 'a twi_scheme \<Rightarrow> 'a twi_scheme" where
  "s_gencall v s = s\<lparr>TWI0 := (TWI0 s)\<lparr>SADDR := push_bit 1 v OR 1\<rparr>\<rparr>"

definition s_mask :: "byte \<Rightarrow> bool \<Rightarrow> 'a twi_scheme \<Rightarrow> 'a twi_scheme" where
  "s_mask v nomask s = s\<lparr>TWI0 := (TWI0 s)\<lparr>SADDRMASK := push_bit 1 v OR of_bool nomask\<rparr>\<rparr>"

definition s_off :: "'a twi_scheme \<Rightarrow> 'a twi_scheme" where
  "s_off s = s\<lparr>TWI0 := (TWI0 s)\<lparr>SCTRLA := SCTRLA (TWI0 s) AND NOT 1\<rparr>\<rparr>"

definition s_on :: "'a twi_scheme \<Rightarrow> 'a twi_scheme" where
  "s_on s = s\<lparr>TWI0 := (TWI0 s)\<lparr>SCTRLA := SCTRLA (TWI0 s) OR 1\<rparr>\<rparr>"

definition s_read :: "'a twi_scheme \<Rightarrow> byte" where
  "s_read s = SDATA (TWI0 s)"

definition s_write :: "byte \<Rightarrow> 'a twi_scheme \<Rightarrow> 'a twi_scheme" where
  "s_write v s = s\<lparr>TWI0 := (TWI0 s)\<lparr>SDATA := v\<rparr>\<rparr>"

definition s_irqAllOn :: "'a twi_scheme \<Rightarrow> 'a twi_scheme" where
  "s_irqAllOn s = s\<lparr>TWI0 := (TWI0 s)\<lparr>SCTRLA := SCTRLA (TWI0 s) OR 0xE0\<rparr>\<rparr>"

definition s_irqAllOff :: "'a twi_scheme \<Rightarrow> 'a twi_scheme" where
  "s_irqAllOff s = s\<lparr>TWI0 := (TWI0 s)\<lparr>SCTRLA := SCTRLA (TWI0 s) AND NOT 0xE0\<rparr>\<rparr>"

definition s_status :: "'a twi_scheme \<Rightarrow> byte" where
  "s_status s = SSTATUS (TWI0 s)"

definition s_clearFlags :: "'a twi_scheme \<Rightarrow> 'a twi_scheme" where
  "s_clearFlags s = s\<lparr>TWI0 := (TWI0 s)\<lparr>SSTATUS := 0xCC\<rparr>\<rparr>"

definition s_nackComplete :: "'a twi_scheme \<Rightarrow> 'a twi_scheme" where
  "s_nackComplete s = s\<lparr>TWI0 := (TWI0 s)\<lparr>SCTRLB := 6\<rparr>\<rparr>"

definition s_ack :: "'a twi_scheme \<Rightarrow> 'a twi_scheme" where
  "s_ack s = s\<lparr>TWI0 := (TWI0 s)\<lparr>SCTRLB := 3\<rparr>\<rparr>"

definition DIF_DIRbm :: byte where "DIF_DIRbm = 0x82"
definition APIF_APbm :: byte where "APIF_APbm = 0x41"
definition RXNACKbm :: byte where "RXNACKbm = 0x10"
definition ERRbm :: byte where "ERRbm = 0x0C"
definition DIF_R :: byte where "DIF_R = 0x82"
definition DIF_W :: byte where "DIF_W = 0x80"
definition APIF_ADDR :: byte where "APIF_ADDR = 0x41"
definition APIF_STOP :: byte where "APIF_STOP = 0x40"

lemmas twis_enum_defs =
  DIF_DIRbm_def APIF_APbm_def RXNACKbm_def ERRbm_def DIF_R_def DIF_W_def APIF_ADDR_def
  APIF_STOP_def

definition isDataRead :: "byte \<Rightarrow> bool" where
  "isDataRead v = (v AND DIF_DIRbm = DIF_R)"

definition isDataWrite :: "byte \<Rightarrow> bool" where
  "isDataWrite v = (v AND DIF_DIRbm = DIF_W)"

definition isAddress :: "byte \<Rightarrow> bool" where
  "isAddress v = (v AND APIF_APbm = APIF_ADDR)"

definition isStop :: "byte \<Rightarrow> bool" where
  "isStop v = (v AND APIF_APbm = APIF_STOP)"

definition isRxNack :: "byte \<Rightarrow> bool" where
  "isRxNack v = (v AND RXNACKbm \<noteq> 0)"

definition isError :: "byte \<Rightarrow> bool" where
  "isError v = (v AND ERRbm \<noteq> 0)"

text \<open>The event kinds handed to the callback (\<^verbatim>\<open>twis_irqstate_t\<close> of \<^verbatim>\<open>twi.h\<close>).\<close>

datatype twis_irqstate_t = TWIS_ADDRESSED | TWIS_MREAD | TWIS_MWRITE | TWIS_STOPPED | TWIS_ERROR

text \<open>
  The chain of conditional expressions with which both slave handlers turn the status
  copy into an event kind: error first, then stop, address, data read, data write.
\<close>

definition twis_state :: "byte \<Rightarrow> twis_irqstate_t" where
  "twis_state st =
     (if isError st then TWIS_ERROR
      else if isStop st then TWIS_STOPPED
      else if isAddress st then TWIS_ADDRESSED
      else if isDataRead st then TWIS_MREAD
      else if isDataWrite st then TWIS_MWRITE
      else TWIS_ERROR)"

text \<open>
  A callback (\<^verbatim>\<open>twis_callback_t\<close>) gets the event kind and the status copy, works on
  the whole state and answers whether to proceed. It answers \<open>None\<close> when it accesses an
  array outside its bounds, which in C has no defined result.
\<close>

type_synonym 's twis_callback_t = "twis_irqstate_t \<Rightarrow> byte \<Rightarrow> 's \<Rightarrow> (bool \<times> 's) option"

text \<open>\<^verbatim>\<open>ISR(TWI0_TWIS_vect)\<close>; the registered callback is the parameter \<open>cb\<close>.\<close>

definition TWI0_TWIS_vect :: "'a twi_scheme twis_callback_t \<Rightarrow> 'a twi_scheme \<Rightarrow> 'a twi_scheme option" where
  "TWI0_TWIS_vect cb s =
     (let st = s_status s;
          state = twis_state st;
          nacked = isRxNack st;
          (done, s1) =
             (if state = TWIS_ADDRESSED
                then (False, s\<lparr>s_lastAddress := drop_bit 1 (s_read s), is1st := True\<rparr>)
              else if state = TWIS_MREAD
                then (if is1st s then (False, s\<lparr>is1st := False\<rparr>) else (nacked, s))
              else if state \<noteq> TWIS_MWRITE then (True, s)
              else (False, s))
      in case cb state st s1 of
           None \<Rightarrow> None
         | Some (ret, s2) \<Rightarrow> Some (if done \<or> \<not> ret then s_nackComplete s2 else s_ack s2))"

subsection \<open>twis: public part\<close>

definition twis_off :: "'a twi_scheme \<Rightarrow> 'a twi_scheme" where
  "twis_off s = s_clearFlags (s_off (s_irqAllOff s))"

definition twis_write :: "byte \<Rightarrow> 'a twi_scheme \<Rightarrow> 'a twi_scheme" where
  "twis_write v s = s_write v s"

definition twis_read :: "'a twi_scheme \<Rightarrow> byte" where
  "twis_read s = s_read s"

definition twis_lastAddress :: "'a twi_scheme \<Rightarrow> byte" where
  "twis_lastAddress s = s_lastAddress s"

definition twis_mask :: "byte \<Rightarrow> 'a twi_scheme \<Rightarrow> 'a twi_scheme" where
  "twis_mask v s = s_mask v True s"

definition twis_addressMask :: "byte \<Rightarrow> 'a twi_scheme \<Rightarrow> 'a twi_scheme" where
  "twis_addressMask v s = s_mask v False s"

text \<open>
  \<^verbatim>\<open>twis_init\<close> returns at once when the callback pointer is null; \<open>cb_given\<close> says
  whether it is not. Registering the pointer itself is passing the callback to the
  handler above.
\<close>

definition twis_init :: "byte \<Rightarrow> bool \<Rightarrow> 'a twi_scheme \<Rightarrow> 'a twi_scheme" where
  "twis_init addr cb_given s =
     (if \<not> cb_given then s else s_on (s_irqAllOn (s_gencall addr (twis_off s))))"

subsection \<open>The same for TWI1\<close>

definition m1_off :: "'a twi_scheme \<Rightarrow> 'a twi_scheme" where
  "m1_off s = s\<lparr>TWI1 := (TWI1 s)\<lparr>MCTRLA := 0\<rparr>\<rparr>"

definition twi1m_off :: "'a twi_scheme \<Rightarrow> 'a twi_scheme" where
  "twi1m_off s = m1_off s"

definition s1_gencall :: "byte \<Rightarrow> 'a twi_scheme \<Rightarrow> 'a twi_scheme" where
  "s1_gencall v s = s\<lparr>TWI1 := (TWI1 s)\<lparr>SADDR := push_bit 1 v OR 1\<rparr>\<rparr>"

definition s1_mask :: "byte \<Rightarrow> bool \<Rightarrow> 'a twi_scheme \<Rightarrow> 'a twi_scheme" where
  "s1_mask v nomask s = s\<lparr>TWI1 := (TWI1 s)\<lparr>SADDRMASK := push_bit 1 v OR of_bool nomask\<rparr>\<rparr>"

definition s1_off :: "'a twi_scheme \<Rightarrow> 'a twi_scheme" where
  "s1_off s = s\<lparr>TWI1 := (TWI1 s)\<lparr>SCTRLA := SCTRLA (TWI1 s) AND NOT 1\<rparr>\<rparr>"

definition s1_on :: "'a twi_scheme \<Rightarrow> 'a twi_scheme" where
  "s1_on s = s\<lparr>TWI1 := (TWI1 s)\<lparr>SCTRLA := SCTRLA (TWI1 s) OR 1\<rparr>\<rparr>"

definition s1_read :: "'a twi_scheme \<Rightarrow> byte" where
  "s1_read s = SDATA (TWI1 s)"

definition s1_write :: "byte \<Rightarrow> 'a twi_scheme \<Rightarrow> 'a twi_scheme" where
  "s1_write v s = s\<lparr>TWI1 := (TWI1 s)\<lparr>SDATA := v\<rparr>\<rparr>"

definition s1_irqAllOn :: "'a twi_scheme \<Rightarrow> 'a twi_scheme" where
  "s1_irqAllOn s = s\<lparr>TWI1 := (TWI1 s)\<lparr>SCTRLA := SCTRLA (TWI1 s) OR 0xE0\<rparr>\<rparr>"

definition s1_irqAllOff :: "'a twi_scheme \<Rightarrow> 'a twi_scheme" where
  "s1_irqAllOff s = s\<lparr>TWI1 := (TWI1 s)\<lparr>SCTRLA := SCTRLA (TWI1 s) AND NOT 0xE0\<rparr>\<rparr>"

definition s1_status :: "'a twi_scheme \<Rightarrow> byte" where
  "s1_status s = SSTATUS (TWI1 s)"

definition s1_clearFlags :: "'a twi_scheme \<Rightarrow> 'a twi_scheme" where
  "s1_clearFlags s = s\<lparr>TWI1 := (TWI1 s)\<lparr>SSTATUS := 0xCC\<rparr>\<rparr>"

definition s1_nackComplete :: "'a twi_scheme \<Rightarrow> 'a twi_scheme" where
  "s1_nackComplete s = s\<lparr>TWI1 := (TWI1 s)\<lparr>SCTRLB := 6\<rparr>\<rparr>"

definition s1_ack :: "'a twi_scheme \<Rightarrow> 'a twi_scheme" where
  "s1_ack s = s\<lparr>TWI1 := (TWI1 s)\<lparr>SCTRLB := 3\<rparr>\<rparr>"

definition TWI1_TWIS_vect :: "'a twi_scheme twis_callback_t \<Rightarrow> 'a twi_scheme \<Rightarrow> 'a twi_scheme option" where
  "TWI1_TWIS_vect cb s =
     (let st = s1_status s;
          state = twis_state st;
          nacked = isRxNack st;
          (done, s1) =
             (if state = TWIS_ADDRESSED
                then (False, s\<lparr>s1_lastAddress := drop_bit 1 (s1_read s), is1st_1 := True\<rparr>)
              else if state = TWIS_MREAD
                then (if is1st_1 s then (False, s\<lparr>is1st_1 := False\<rparr>) else (nacked, s))
              else if state \<noteq> TWIS_MWRITE then (True, s)
              else (False, s))
      in case cb state st s1 of
           None \<Rightarrow> None
         | Some (ret, s2) \<Rightarrow> Some (if done \<or> \<not> ret then s1_nackComplete s2 else s1_ack s2))"

definition twi1s_off :: "'a twi_scheme \<Rightarrow> 'a twi_scheme" where
  "twi1s_off s = s1_clearFlags (s1_off (s1_irqAllOff s))"

definition twi1s_write :: "byte \<Rightarrow> 'a twi_scheme \<Rightarrow> 'a twi_scheme" where
  "twi1s_write v s = s1_write v s"

definition twi1s_read :: "'a twi_scheme \<Rightarrow> byte" where
  "twi1s_read s = s1_read s"

definition twi1s_lastAddress :: "'a twi_scheme \<Rightarrow> byte" where
  "twi1s_lastAddress s = s1_lastAddress s"

definition twi1s_init :: "byte \<Rightarrow> bool \<Rightarrow> 'a twi_scheme \<Rightarrow> 'a twi_scheme" where
  "twi1s_init addr cb_given s =
     (if \<not> cb_given then s else s1_on (s1_irqAllOn (s1_gencall addr (twi1s_off s))))"

section \<open>The Manager's \<^verbatim>\<open>AppUpload/main.c\<close>\<close>

subsection \<open>Collaborators that are not part of the source at hand\<close>

text \<open>
  The output lines that \<^verbatim>\<open>main.c\<close> drives with \<^verbatim>\<open>ioWrite\<close> and \<^verbatim>\<open>ioToggle\<close>, and their
  two levels (\<^verbatim>\<open>lib/io_enum_bsd.h\<close>).
\<close>

datatype MCU_IO_t =
  MCU_IO_MGR_LED | MCU_IO_RX_nRE | MCU_IO_RX_DE | MCU_IO_TX_nRE | MCU_IO_TX_DE
  | MCU_IO_OOB_nRE | MCU_IO_OOB_DE | MCU_IO_MGR_SETAPP4_UART | MCU_IO_MGR_SETAPP4_UPDI

datatype LOGIC_LEVEL_t = LOGIC_LEVEL_LOW | LOGIC_LEVEL_HIGH

text \<open>
  What \<^verbatim>\<open>main.c\<close> writes to the debug stream \<^verbatim>\<open>uart1\<close>, one constructor for each
  \<^verbatim>\<open>fprintf\<close> call, with the argument of its format:
  \<^item> \<open>Echo c\<close>: \<^verbatim>\<open>"%c\r"\<close>;
  \<^item> \<open>Abort_found\<close>: \<^verbatim>\<open>{"abort":"'$' found"}\<close>;
  \<^item> \<open>Ping a\<close>: \<^verbatim>\<open>{"ping":"0x%X"}\<close>;
  \<^item> \<open>Monitor_open a\<close>: \<^verbatim>\<open>{"monitor_0x%X":[\<close>;
  \<^item> \<open>Status v\<close>: \<^verbatim>\<open>{"status":"0x%X"}\<close>; \<open>Len n\<close>: \<^verbatim>\<open>,{"len":"%d"}\<close>;
  \<^item> \<open>W1 v\<close>, \<open>R1 v\<close>, \<open>W2 v\<close>, \<open>R2 v\<close>: \<^verbatim>\<open>,{"W1":"0x%X"}\<close> and so on;
  \<^item> \<open>Monitor_close\<close>: \<^verbatim>\<open>]}\<close>.
\<close>

datatype uart1_item =
  Echo int | Abort_found | Ping byte | Monitor_open byte | Status byte | Len byte
  | W1 byte | R1 byte | W2 byte | R2 byte | Monitor_close

subsection \<open>The globals\<close>

text \<open>
  The file-level variables of \<^verbatim>\<open>main.c\<close>, on top of the state of \<^verbatim>\<open>twi.c\<close>. The five
  arrays \<^verbatim>\<open>BufferA\<close> to \<^verbatim>\<open>BufferE\<close> are only reached through the pointers
  \<^verbatim>\<open>twi0RxBuffer\<close>, \<^verbatim>\<open>twi0TxBuffer\<close>, \<^verbatim>\<open>twi1RxBuffer\<close>, \<^verbatim>\<open>twi1TxBuffer\<close> and
  \<^verbatim>\<open>got_twi0_buf\<close>, which are never reassigned, so each array goes by its pointer's
  name. \<open>io\<close> holds the level of every output line and \<open>uart1_out\<close> what has been
  written to the debug stream, oldest first.
\<close>

record manager = twi +
  blink_started_at :: "32 word"
  blink_delay :: "32 word"
  got_a :: int
  io :: "MCU_IO_t \<Rightarrow> LOGIC_LEVEL_t"
  uart1_out :: "uart1_item list"
  twi0RxBuffer :: "byte list"
  twi0RxBufferLength :: byte
  twi0TxBuffer :: "byte list"
  twi0TxBufferLength :: byte
  twi0TxBufferIndex :: byte
  printOp1Buffer :: "byte list"
  printOp1BufferLength :: byte
  printOp1BufferIndex :: byte
  printOp1rw :: byte
  printOp2Buffer :: "byte list"
  printOp2BufferLength :: byte
  printOp2BufferIndex :: byte
  printOp2rw :: byte
  print_slave_addr :: byte
  twi0_slave_status_cpy :: byte
  twi0_last_op :: byte
  printing :: byte
  got_twi0 :: byte
  got_twi0_buf :: "byte list"
  got_twi0BufferLength :: byte
  got_twi0BufferIndex :: byte
  twi1RxBuffer :: "byte list"
  twi1RxBufferLength :: byte
  twi1TxBuffer :: "byte list"
  twi1TxBufferLength :: byte
  twi1TxBufferIndex :: byte
  twi1_slave_status_cpy :: byte
  twi1_last_op :: byte
  got_twi1 :: byte
  debug_print_done :: byte

definition BLINK_DELAY :: "32 word" where "BLINK_DELAY = 1000"
definition BUFF_SIZE :: nat where "BUFF_SIZE = 32"
definition LAST_OP_A :: byte where "LAST_OP_A = 0"
definition LAST_OP_R :: byte where "LAST_OP_R = 1"
definition LAST_OP_W :: byte where "LAST_OP_W = 2"

text \<open>
  \<^verbatim>\<open>fromHost_addr\<close> and \<^verbatim>\<open>fromApp_addr\<close> are initialised variables that nothing assigns
  to.
\<close>

definition fromHost_addr :: byte where "fromHost_addr = 42"
definition fromApp_addr :: byte where "fromApp_addr = 41"

text \<open>
  Modelled from the spec: \<^verbatim>\<open>ioWrite\<close> and \<^verbatim>\<open>ioToggle\<close> belong to
  \<^verbatim>\<open>lib/io_enum_bsd.h\<close>, which is not part of the source at hand. The specification
  speaks of discrete output lines that the relay logic drives; writing sets the level of
  the named line and toggling inverts it.
\<close>

definition ioWrite :: "MCU_IO_t \<Rightarrow> LOGIC_LEVEL_t \<Rightarrow> manager \<Rightarrow> manager" where
  "ioWrite pin level s = s\<lparr>io := (io s)(pin := level)\<rparr>"

definition ioToggle :: "MCU_IO_t \<Rightarrow> manager \<Rightarrow> manager" where
  "ioToggle pin s =
     s\<lparr>io := (io s)(pin := (if io s pin = LOGIC_LEVEL_HIGH then LOGIC_LEVEL_LOW
                              else LOGIC_LEVEL_HIGH))\<rparr>"

text \<open>
  Modelled from the spec: the debug stream (\<^verbatim>\<open>lib/uart1_bsd\<close>, not part of the source
  at hand) is a byte-oriented writer; a \<^verbatim>\<open>fprintf\<close> on it appends its fragment.
\<close>

definition uart1_put :: "uart1_item \<Rightarrow> manager \<Rightarrow> manager" where
  "uart1_put x s = s\<lparr>uart1_out := uart1_out s @ [x]\<rparr>"

subsection \<open>Blinking and the abort\<close>

text \<open>\<open>kRuntime\<close> is what \<^verbatim>\<open>elapsed(&blink_started_at)\<close> returns.\<close>

definition blink :: "32 word \<Rightarrow> manager \<Rightarrow> manager" where
  "blink kRuntime s =
     (if kRuntime > blink_delay s
      then (ioToggle MCU_IO_MGR_LED s)\<lparr>blink_started_at := blink_started_at s + blink_delay s\<rparr>
      else s)"

text \<open>
  \<^verbatim>\<open>abort_safe\<close> does not return: it ends in a loop that toggles the indicator for
  ever with interrupts off. The model gives the state in which that loop is entered.
\<close>

definition abort_safe :: "manager \<Rightarrow> manager" where
  "abort_safe s =
     twi1m_off (twim_off
      (ioWrite MCU_IO_MGR_LED LOGIC_LEVEL_LOW
      (ioWrite MCU_IO_MGR_SETAPP4_UPDI LOGIC_LEVEL_LOW
      (ioWrite MCU_IO_MGR_SETAPP4_UART LOGIC_LEVEL_LOW
      (ioWrite MCU_IO_TX_DE LOGIC_LEVEL_LOW
      (ioWrite MCU_IO_TX_nRE LOGIC_LEVEL_HIGH
      (ioWrite MCU_IO_RX_DE LOGIC_LEVEL_LOW
      (ioWrite MCU_IO_RX_nRE LOGIC_LEVEL_HIGH s))))))))"

subsection \<open>The diagnostic slots and the buffer move\<close>

text \<open>
  The copy loop \<^verbatim>\<open>for(int i = 0; i < bufsize; ++i) to[i] = from[i];\<close> of the three
  functions below. An index outside either array gives \<open>None\<close>.
\<close>

function copy_loop :: "nat \<Rightarrow> nat \<Rightarrow> byte list \<Rightarrow> byte list \<Rightarrow> byte list option" where
  "copy_loop i bufsize from_buf to_buf =
     (if i < bufsize
      then (if i < length from_buf \<and> i < length to_buf
            then copy_loop (Suc i) bufsize from_buf (to_buf[i := from_buf ! i])
            else None)
      else Some to_buf)"
  by pat_completeness auto
termination
  by (relation "measure (\<lambda>(i, bufsize, from_buf, to_buf). bufsize - i)") auto

declare copy_loop.simps [simp del]

definition print_Op1_buf_if_possible ::
  "byte \<Rightarrow> byte list \<Rightarrow> byte \<Rightarrow> byte \<Rightarrow> manager \<Rightarrow> (bool \<times> manager) option" where
  "print_Op1_buf_if_possible rw buf bufsize lastAddress s =
     (let ret = (printing s \<noteq> 0) in
      if ret then
        (case copy_loop 0 (unat bufsize) buf (printOp1Buffer s) of
           None \<Rightarrow> None
         | Some b \<Rightarrow>
             Some (ret, s\<lparr>printOp1BufferLength := bufsize, printOp1BufferIndex := 0,
                          printOp1Buffer := b, printOp1rw := rw,
                          print_slave_addr := lastAddress\<rparr>))
      else Some (ret, s))"

definition print_Op2_buf_if_possible ::
  "byte \<Rightarrow> byte list \<Rightarrow> byte \<Rightarrow> byte \<Rightarrow> manager \<Rightarrow> (bool \<times> manager) option" where
  "print_Op2_buf_if_possible rw buf bufsize lastAddress s =
     (let ret = (printing s \<noteq> 0) in
      if ret then
        (case copy_loop 0 (unat bufsize) buf (printOp2Buffer s) of
           None \<Rightarrow> None
         | Some b \<Rightarrow>
             (let s1 = s\<lparr>printOp2BufferLength := bufsize, printOp2BufferIndex := 0,
                         printOp2Buffer := b, printOp2rw := rw\<rparr>
              in if print_slave_addr s1 \<noteq> lastAddress
                 then Some (False, s1\<lparr>printOp2BufferLength := 0, printOp1BufferLength := 0,
                                      printing := 0\<rparr>)
                 else Some (ret, s1)))
      else Some (ret, s))"

text \<open>
  \<^verbatim>\<open>move_buffer\<close> works through five pointers. The model takes the source array, its
  length and the target array, and returns the answer with the new values of
  \<^verbatim>\<open>*from_bufsize\<close>, \<^verbatim>\<open>to_buf\<close>, \<^verbatim>\<open>*to_bufsize\<close> and \<^verbatim>\<open>*to_bufindex\<close>, which the
  caller stores into the variables it passed. At every call the five are different
  variables.
\<close>

definition move_buffer ::
  "byte list \<Rightarrow> byte \<Rightarrow> byte list \<Rightarrow> (bool \<times> byte \<times> byte list \<times> byte \<times> byte) option" where
  "move_buffer from_buf from_bufsize to_buf =
     (case copy_loop 0 (unat from_bufsize) from_buf to_buf of
        None \<Rightarrow> None
      | Some b \<Rightarrow> Some (True, 0, b, from_bufsize, 0))"

text \<open>
  The expression that every branch assigns to \<^verbatim>\<open>printing\<close>: both slots are printed
  out and the debug stream has room. \<open>room\<close> is the truth value of
  \<^verbatim>\<open>uart1_availableForWrite()\<close> at that moment.
\<close>

definition print_free :: "bool \<Rightarrow> manager \<Rightarrow> byte" where
  "print_free room s =
     of_bool (printOp1BufferIndex s \<ge> printOp1BufferLength s
              \<and> printOp2BufferIndex s \<ge> printOp2BufferLength s \<and> room)"

subsection \<open>The callback of the host-facing bus\<close>

fun twisCallback :: "bool \<Rightarrow> twis_irqstate_t \<Rightarrow> byte \<Rightarrow> manager \<Rightarrow> (bool \<times> manager) option" where
  "twisCallback room TWIS_ADDRESSED statusReg s =
     (let ret = (twis_lastAddress s = fromHost_addr);
          s1 = s\<lparr>twi0_slave_status_cpy := statusReg\<rparr>
      in if twi0RxBufferLength s1 \<noteq> 0 then
           (let s2 = s1\<lparr>printing := print_free room s1\<rparr> in
            case print_Op1_buf_if_possible (twi0_last_op s2) (twi0RxBuffer s2)
                   (twi0RxBufferLength s2) (twis_lastAddress s2) s2 of
              None \<Rightarrow> None
            | Some (_, s3) \<Rightarrow>
                (case move_buffer (twi0RxBuffer s3) (twi0RxBufferLength s3) (twi0TxBuffer s3) of
                   None \<Rightarrow> None
                 | Some (_, from_size, to_buf, to_size, to_index) \<Rightarrow>
                     Some (ret, s3\<lparr>twi0RxBufferLength := from_size, twi0TxBuffer := to_buf,
                                  twi0TxBufferLength := to_size, twi0TxBufferIndex := to_index,
                                  twi0_last_op := LAST_OP_A\<rparr>)))
         else Some (ret, s1\<lparr>twi0_last_op := LAST_OP_A\<rparr>))"
| "twisCallback room TWIS_MREAD statusReg s =
     (if twi0TxBufferIndex s < twi0TxBufferLength s then
        (if unat (twi0TxBufferIndex s) < length (twi0TxBuffer s)
         then Some (True,
                (twis_write (twi0TxBuffer s ! unat (twi0TxBufferIndex s)) s)
                  \<lparr>twi0TxBufferIndex := twi0TxBufferIndex s + 1, twi0_last_op := LAST_OP_R\<rparr>)
         else None)
      else Some (True, s\<lparr>twi0_last_op := LAST_OP_R\<rparr>))"
| "twisCallback room TWIS_MWRITE statusReg s =
     (if unat (twi0RxBufferLength s) < length (twi0RxBuffer s) then
        (let s1 = s\<lparr>twi0RxBuffer := (twi0RxBuffer s)[unat (twi0RxBufferLength s) := twis_read s],
                    twi0RxBufferLength := twi0RxBufferLength s + 1\<rparr>
         in Some (unat (twi0RxBufferLength s1) < BUFF_SIZE, s1\<lparr>twi0_last_op := LAST_OP_W\<rparr>))
      else None)"
| "twisCallback room TWIS_STOPPED statusReg s =
     (case
        (if twi0TxBufferLength s \<noteq> 0 then
           (if twi0RxBufferLength s \<noteq> 0 then
              (case print_Op2_buf_if_possible (twi0_last_op s) (twi0RxBuffer s)
                      (twi0RxBufferLength s) (twis_lastAddress s) s of
                 None \<Rightarrow> None
               | Some (_, s1) \<Rightarrow> Some s1)
            else
              (case print_Op2_buf_if_possible (twi0_last_op s) (twi0TxBuffer s)
                      (twi0TxBufferLength s) (twis_lastAddress s) s of
                 None \<Rightarrow> None
               | Some (_, s1) \<Rightarrow>
                   (case move_buffer (twi0TxBuffer s1) (twi0TxBufferLength s1) (got_twi0_buf s1) of
                      None \<Rightarrow> None
                    | Some (_, from_size, to_buf, to_size, to_index) \<Rightarrow>
                        Some (s1\<lparr>twi0TxBufferLength := from_size, got_twi0_buf := to_buf,
                                 got_twi0BufferLength := to_size,
                                 got_twi0BufferIndex := to_index, got_twi0 := 1\<rparr>))))
         else if twi0RxBufferLength s \<noteq> 0 then
           (let s1 = s\<lparr>printing := print_free room s\<rparr> in
            case print_Op1_buf_if_possible (twi0_last_op s1) (twi0RxBuffer s1)
                   (twi0RxBufferLength s1) (twis_lastAddress s1) s1 of
              None \<Rightarrow> None
            | Some (_, s2) \<Rightarrow> Some s2)
         else if twi0_last_op s = LAST_OP_A then
           (let s1 = s\<lparr>printing := print_free room s\<rparr>
            in Some (if printing s1 \<noteq> 0 then uart1_put (Ping fromHost_addr) s1 else s1))
         else Some s)
      of None \<Rightarrow> None
       | Some s' \<Rightarrow> Some (True, s'\<lparr>twi0TxBufferLength := 0, twi0RxBufferLength := 0\<rparr>))"
| "twisCallback room TWIS_ERROR statusReg s = Some (False, s)"

subsection \<open>The callback of the application-facing bus\<close>

text \<open>
  As the source has it: the address test of \<open>TWIS_ADDRESSED\<close> asks
  \<^verbatim>\<open>twi1s_lastAddress()\<close>, while the data branches call \<^verbatim>\<open>twis_write\<close> and
  \<^verbatim>\<open>twis_read\<close> and the \<open>TWIS_STOPPED\<close> branch calls \<^verbatim>\<open>twis_lastAddress()\<close>, the
  functions of TWI0.
\<close>

fun twi1sCallback :: "bool \<Rightarrow> twis_irqstate_t \<Rightarrow> byte \<Rightarrow> manager \<Rightarrow> (bool \<times> manager) option" where
  "twi1sCallback room TWIS_ADDRESSED statusReg s =
     (let ret = (twi1s_lastAddress s = fromApp_addr);
          s1 = s\<lparr>twi1_slave_status_cpy := statusReg\<rparr>
      in if twi1RxBufferLength s1 \<noteq> 0 then
           (let s2 = s1\<lparr>printing := print_free room s1\<rparr> in
            case print_Op1_buf_if_possible (twi1_last_op s2) (twi1RxBuffer s2)
                   (twi1RxBufferLength s2) (twi1s_lastAddress s2) s2 of
              None \<Rightarrow> None
            | Some (_, s3) \<Rightarrow>
                (case move_buffer (twi1RxBuffer s3) (twi1RxBufferLength s3) (twi1TxBuffer s3) of
                   None \<Rightarrow> None
                 | Some (_, from_size, to_buf, to_size, to_index) \<Rightarrow>
                     Some (ret, s3\<lparr>twi1RxBufferLength := from_size, twi1TxBuffer := to_buf,
                                  twi1TxBufferLength := to_size, twi1TxBufferIndex := to_index,
                                  twi1_last_op := LAST_OP_A\<rparr>)))
         else Some (ret, s1\<lparr>twi1_last_op := LAST_OP_A\<rparr>))"
| "twi1sCallback room TWIS_MREAD statusReg s =
     (if twi1TxBufferIndex s < twi1TxBufferLength s then
        (if unat (twi1TxBufferIndex s) < length (twi1TxBuffer s)
         then Some (True,
                (twis_write (twi1TxBuffer s ! unat (twi1TxBufferIndex s)) s)
                  \<lparr>twi1TxBufferIndex := twi1TxBufferIndex s + 1, twi1_last_op := LAST_OP_R\<rparr>)
         else None)
      else Some (True, s\<lparr>twi1_last_op := LAST_OP_R\<rparr>))"
| "twi1sCallback room TWIS_MWRITE statusReg s =
     (if unat (twi1RxBufferLength s) < length (twi1RxBuffer s) then
        (let s1 = s\<lparr>twi1RxBuffer := (twi1RxBuffer s)[unat (twi1RxBufferLength s) := twis_read s],
                    twi1RxBufferLength := twi1RxBufferLength s + 1\<rparr>
         in Some (unat (twi1RxBufferLength s1) < BUFF_SIZE, s1\<lparr>twi1_last_op := LAST_OP_W\<rparr>))
      else None)"
| "twi1sCallback room TWIS_STOPPED statusReg s =
     (case
        (if twi1TxBufferLength s \<noteq> 0 then
           (if twi1RxBufferLength s \<noteq> 0 then
              (case print_Op2_buf_if_possible (twi1_last_op s) (twi1RxBuffer s)
                      (twi1RxBufferLength s) (twis_lastAddress s) s of
                 None \<Rightarrow> None
               | Some (_, s1) \<Rightarrow> Some s1)
            else
              (case print_Op2_buf_if_possible (twi1_last_op s) (twi1TxBuffer s)
                      (twi1TxBufferLength s) (twis_lastAddress s) s of
                 None \<Rightarrow> None
               | Some (_, s1) \<Rightarrow> Some s1))
         else if twi1RxBufferLength s \<noteq> 0 then
           (let s1 = s\<lparr>printing := print_free room s\<rparr> in
            case print_Op1_buf_if_possible (twi1_last_op s1) (twi1RxBuffer s1)
                   (twi1RxBufferLength s1) (twis_lastAddress s1) s1 of
              None \<Rightarrow> None
            | Some (_, s2) \<Rightarrow> Some s2)
         else if twi1_last_op s = LAST_OP_A then
           (let s1 = s\<lparr>printing := print_free room s\<rparr>
            in Some (if printing s1 \<noteq> 0 then uart1_put (Ping fromHost_addr) s1 else s1))
         else Some s)
      of None \<Rightarrow> None
       | Some s' \<Rightarrow> Some (True, s'\<lparr>twi1TxBufferLength := 0, twi1RxBufferLength := 0\<rparr>))"
| "twi1sCallback room TWIS_ERROR statusReg s = Some (False, s)"

subsection \<open>Set-up, the monitor and the main loop\<close>

text \<open>
  The function \<^verbatim>\<open>setup\<close> of \<^verbatim>\<open>main.c\<close> (the name is taken in Isabelle, hence
  \<open>main_setup\<close>), as far as it reaches the state modelled here: the levels it writes, the
  two slave engines it starts (both with \<^verbatim>\<open>fromHost_addr\<close> and a callback that is not
  null) and the variables it sets. \<open>cnvrt_milli\<close> is the conversion from milliseconds to
  timer ticks of \<^verbatim>\<open>lib/timers_bsd\<close>, which is not part of the source at hand and is
  therefore a parameter; \<open>tick\<close> is what \<^verbatim>\<open>tickAtomic()\<close> returns.
\<close>

definition main_setup :: "(32 word \<Rightarrow> 32 word) \<Rightarrow> 32 word \<Rightarrow> manager \<Rightarrow> manager" where
  "main_setup cnvrt_milli tick s =
     (let s1 = ioWrite MCU_IO_MGR_LED LOGIC_LEVEL_HIGH s;
          s2 = ioWrite MCU_IO_RX_nRE LOGIC_LEVEL_LOW s1;
          s3 = ioWrite MCU_IO_RX_DE LOGIC_LEVEL_HIGH s2;
          s4 = ioWrite MCU_IO_TX_nRE LOGIC_LEVEL_LOW s3;
          s5 = ioWrite MCU_IO_TX_DE LOGIC_LEVEL_HIGH s4;
          s6 = ioWrite MCU_IO_OOB_nRE LOGIC_LEVEL_HIGH s5;
          s7 = ioWrite MCU_IO_OOB_DE LOGIC_LEVEL_LOW s6;
          s8 = ioWrite MCU_IO_MGR_SETAPP4_UART LOGIC_LEVEL_HIGH s7;
          s9 = ioWrite MCU_IO_MGR_SETAPP4_UPDI LOGIC_LEVEL_LOW s8;
          s10 = twis_init fromHost_addr True s9;
          s11 = twi1s_init fromHost_addr True s10
      in s11\<lparr>blink_started_at := tick, blink_delay := cnvrt_milli BLINK_DELAY,
              got_a := 0, got_twi0 := 0, got_twi1 := 0\<rparr>)"

text \<open>
  \<^verbatim>\<open>i2c_monitor\<close>: one fragment for each call. The inner value pairs the state with
  whether the function has returned early (nothing to print yet); the test for the
  closing fragment follows the chain otherwise.
\<close>

definition i2c_monitor :: "manager \<Rightarrow> manager option" where
  "i2c_monitor s =
     (case
        (if debug_print_done s = 0 then
           (if printOp1BufferIndex s < printOp1BufferLength s
            then Some (False, (uart1_put (Monitor_open (print_slave_addr s)) s)
                                \<lparr>debug_print_done := 1\<rparr>)
            else Some (True, s))
         else if debug_print_done s = 1 then
           Some (False, (uart1_put (Status (twi0_slave_status_cpy s)) s)\<lparr>debug_print_done := 2\<rparr>)
         else if debug_print_done s = 2 then
           Some (False, (uart1_put (Len (printOp1BufferLength s)) s)\<lparr>debug_print_done := 3\<rparr>)
         else if debug_print_done s = 3 then
           (if printOp1BufferIndex s \<ge> printOp1BufferLength s
              then Some (False, s\<lparr>debug_print_done := 4\<rparr>)
            else if printOp1rw s = LAST_OP_W then
              (if unat (printOp1BufferIndex s) < length (printOp1Buffer s)
               then Some (False,
                      (uart1_put (W1 (printOp1Buffer s ! unat (printOp1BufferIndex s))) s)
                        \<lparr>printOp1BufferIndex := printOp1BufferIndex s + 1\<rparr>)
               else None)
            else if printOp1rw s = LAST_OP_R then
              (if unat (printOp1BufferIndex s) < length (printOp1Buffer s)
               then Some (False,
                      (uart1_put (R1 (printOp1Buffer s ! unat (printOp1BufferIndex s))) s)
                        \<lparr>printOp1BufferIndex := printOp1BufferIndex s + 1\<rparr>)
               else None)
            else Some (False, s))
         else if debug_print_done s = 4 then
           (if printOp2BufferIndex s \<ge> printOp2BufferLength s
              then Some (False, s\<lparr>debug_print_done := 5\<rparr>)
            else if printOp2rw s = LAST_OP_W then
              (if unat (printOp2BufferIndex s) < length (printOp2Buffer s)
               then Some (False,
                      (uart1_put (W2 (printOp2Buffer s ! unat (printOp2BufferIndex s))) s)
                        \<lparr>printOp2BufferIndex := printOp2BufferIndex s + 1\<rparr>)
               else None)
            else if printOp2rw s = LAST_OP_R then
              (if unat (printOp2BufferIndex s) < length (printOp2Buffer s)
               then Some (False,
                      (uart1_put (R2 (printOp2Buffer s ! unat (printOp2BufferIndex s))) s)
                        \<lparr>printOp2BufferIndex := printOp2BufferIndex s + 1\<rparr>)
               else None)
            else Some (False, s))
         else Some (False, s))
      of None \<Rightarrow> None
       | Some (returned, s1) \<Rightarrow>
           Some (if \<not> returned \<and> debug_print_done s1 = 5
                 then (uart1_put Monitor_close s1)\<lparr>debug_print_done := 0\<rparr>
                 else s1))"

text \<open>
  The body of \<^verbatim>\<open>if(uart1_availableForWrite())\<close> in the loop of \<^verbatim>\<open>main\<close>: the monitor,
  then the two relay flags.
\<close>

definition main_uart_section :: "(32 word \<Rightarrow> 32 word) \<Rightarrow> manager \<Rightarrow> manager option" where
  "main_uart_section cnvrt_milli s =
     (case i2c_monitor s of
        None \<Rightarrow> None
      | Some s1 \<Rightarrow>
          (let s2 = (if got_twi1 s1 \<noteq> 0 then s1\<lparr>got_twi1 := 0\<rparr> else s1) in
           if got_twi0 s2 \<noteq> 0 then
             (case got_twi0_buf s2 of
                [] \<Rightarrow> None
              | b # _ \<Rightarrow>
                  Some ((if b = 7
                         then (ioWrite MCU_IO_MGR_SETAPP4_UPDI LOGIC_LEVEL_HIGH
                                (ioWrite MCU_IO_MGR_SETAPP4_UART LOGIC_LEVEL_LOW s2))
                                \<lparr>blink_delay := cnvrt_milli (BLINK_DELAY div 4)\<rparr>
                         else (ioWrite MCU_IO_MGR_SETAPP4_UPDI LOGIC_LEVEL_LOW
                                (ioWrite MCU_IO_MGR_SETAPP4_UART LOGIC_LEVEL_HIGH s2))
                                \<lparr>blink_delay := cnvrt_milli BLINK_DELAY\<rparr>)
                        \<lparr>got_twi0 := 0\<rparr>))
           else Some s2))"

text \<open>
  One pass through the loop of \<^verbatim>\<open>main\<close>. \<open>rx\<close> is the character \<^verbatim>\<open>fgetc\<close> delivers
  when \<^verbatim>\<open>uart1_available()\<close> holds, \<open>kRuntime\<close> the elapsed time \<^verbatim>\<open>blink\<close> sees and
  \<open>room\<close> the truth value of \<^verbatim>\<open>uart1_availableForWrite()\<close>. A pass that meets
  \<^verbatim>\<open>'$'\<close> never ends (\<open>Halted\<close>). Interrupt handlers run between passes.
\<close>

datatype loop_result = Running manager | Halted manager

definition main_loop_body ::
  "(32 word \<Rightarrow> 32 word) \<Rightarrow> int option \<Rightarrow> 32 word \<Rightarrow> bool \<Rightarrow> manager \<Rightarrow> loop_result option" where
  "main_loop_body cnvrt_milli rx kRuntime room s =
     (case
        (case rx of
           None \<Rightarrow> Inr s
         | Some input \<Rightarrow>
             (let s1 = uart1_put (Echo input) s in
              if input = 36 then Inl (abort_safe (uart1_put Abort_found s1))
              else Inr (s1\<lparr>got_a := (if input = 97 then 1 else 0)\<rparr>)))
      of Inl h \<Rightarrow> Some (Halted h)
       | Inr s2 \<Rightarrow>
           (let s3 = (if got_a s2 = 0 then blink kRuntime s2 else s2) in
            if room then
              (case main_uart_section cnvrt_milli s3 of
                 None \<Rightarrow> None
               | Some s4 \<Rightarrow> Some (Running s4))
            else Some (Running s3)))"

subsection \<open>The state at power-on\<close>

text \<open>
  Registers at their reset value, statics zeroed by the C start-up code, output
  latches low, nothing written to the stream.
\<close>

definition TWI_reset :: TWI_t where
  "TWI_reset = \<lparr>MCTRLA = 0, MCTRLB = 0, MSTATUS = 0, MADDR = 0, MDATA = 0, SADDR = 0,
                SADDRMASK = 0, SCTRLA = 0, SCTRLB = 0, SSTATUS = 0, SDATA = 0\<rparr>"

definition Buffer0 :: "byte list" where
  "Buffer0 = replicate BUFF_SIZE 0"

definition manager_reset :: manager where
  "manager_reset =
     \<lparr>TWI0 = TWI_reset, TWI1 = TWI_reset, txbuf = 0, txbufEnd = 0, txbuf2 = 0,
      txbuf2End = 0, rxbuf = 0, rxbufEnd = 0, twi_lastResult = False,
      s_lastAddress = 0, is1st = False, s1_lastAddress = 0, is1st_1 = False,
      ram = (\<lambda>_. 0),
      blink_started_at = 0, blink_delay = 0, got_a = 0, io = (\<lambda>_. LOGIC_LEVEL_LOW),
      uart1_out = [],
      twi0RxBuffer = Buffer0, twi0RxBufferLength = 0,
      twi0TxBuffer = Buffer0, twi0TxBufferLength = 0, twi0TxBufferIndex = 0,
      printOp1Buffer = Buffer0, printOp1BufferLength = 0, printOp1BufferIndex = 0,
      printOp1rw = 0,
      printOp2Buffer = Buffer0, printOp2BufferLength = 0, printOp2BufferIndex = 0,
      printOp2rw = 0, print_slave_addr = 0,
      twi0_slave_status_cpy = 0, twi0_last_op = 0, printing = 0, got_twi0 = 0,
      got_twi0_buf = Buffer0, got_twi0BufferLength = 0, got_twi0BufferIndex = 0,
      twi1RxBuffer = Buffer0, twi1RxBufferLength = 0,
      twi1TxBuffer = Buffer0, twi1TxBufferLength = 0, twi1TxBufferIndex = 0,
      twi1_slave_status_cpy = 0, twi1_last_op = 0, got_twi1 = 0,
      debug_print_done = 0\<rparr>"

section \<open>The bus as the handlers see it\<close>

text \<open>
  The slave peripheral recognises an address when it equals the seven upper bits of
  SADDR, or is 0 (the general call) while bit 0 of SADDR is set, which is what
  \<^verbatim>\<open>s_gencall\<close> writes (``gencall enabled, so check address in callback''). SADDRMASK
  holds a second address when its bit 0 is set and otherwise a mask of address bits to
  ignore, as the comments of \<^verbatim>\<open>twis_mask\<close> and \<^verbatim>\<open>twis_addressMask\<close> say.
\<close>

definition twis_address_match :: "TWI_t \<Rightarrow> byte \<Rightarrow> bool" where
  "twis_address_match t a =
     (let own = drop_bit 1 (SADDR t); m = drop_bit 1 (SADDRMASK t) in
      (if SADDRMASK t AND 1 \<noteq> 0 then a = own \<or> a = m else (a XOR own) AND NOT m = 0)
      \<or> (SADDR t AND 1 \<noteq> 0 \<and> a = 0))"

text \<open>
  Which slave interrupts the peripheral raises. An address interrupt comes with an
  address byte in SDATA that the peripheral recognises. A data interrupt comes only
  while a transaction is open, that is, when the handler answered the event before with
  \<^verbatim>\<open>s_ack\<close> (SCTRLB holds 3); after \<^verbatim>\<open>s_nackComplete\<close> the peripheral waits for the
  next start condition. Stop and error conditions are reported at any time.
\<close>

definition twis_raised :: "TWI_t \<Rightarrow> byte \<Rightarrow> byte \<Rightarrow> bool" where
  "twis_raised t st d =
     (case twis_state st of
        TWIS_ADDRESSED \<Rightarrow> twis_address_match t (drop_bit 1 d)
      | TWIS_MREAD \<Rightarrow> SCTRLB t = 3
      | TWIS_MWRITE \<Rightarrow> SCTRLB t = 3
      | TWIS_STOPPED \<Rightarrow> True
      | TWIS_ERROR \<Rightarrow> True)"

text \<open>
  A bus event is the status and the data register the peripheral presents, and whether
  the debug stream has room at that moment. The handler of TWI0 runs with the callback
  that \<^verbatim>\<open>setup\<close> registered for it, \<^verbatim>\<open>twisCallback\<close>, and the handler of TWI1 with
  \<^verbatim>\<open>twi1sCallback\<close>.
\<close>

type_synonym twis_event = "byte \<times> byte \<times> bool"

definition twi0_irq :: "twis_event \<Rightarrow> manager \<Rightarrow> manager option" where
  "twi0_irq ev s =
     (case ev of (st, d, room) \<Rightarrow>
        TWI0_TWIS_vect (twisCallback room) (s\<lparr>TWI0 := (TWI0 s)\<lparr>SSTATUS := st, SDATA := d\<rparr>\<rparr>))"

definition twi1_irq :: "twis_event \<Rightarrow> manager \<Rightarrow> manager option" where
  "twi1_irq ev s =
     (case ev of (st, d, room) \<Rightarrow>
        TWI1_TWIS_vect (twi1sCallback room) (s\<lparr>TWI1 := (TWI1 s)\<lparr>SSTATUS := st, SDATA := d\<rparr>\<rparr>))"

text \<open>
  A run of events on one bus. Events the peripheral does not raise are passed over. The
  bytes sent to the external master are collected: after a master-read event that the
  handler answers with \<^verbatim>\<open>s_ack\<close>, the peripheral shifts out what SDATA holds.
\<close>

fun twi0_events :: "twis_event list \<Rightarrow> manager \<Rightarrow> (byte list \<times> manager) option" where
  "twi0_events [] s = Some ([], s)"
| "twi0_events ((st, d, room) # evs) s =
     (if twis_raised (TWI0 s) st d then
        (case twi0_irq (st, d, room) s of
           None \<Rightarrow> None
         | Some s1 \<Rightarrow>
             (case twi0_events evs s1 of
                None \<Rightarrow> None
              | Some (out, s2) \<Rightarrow>
                  Some ((if twis_state st = TWIS_MREAD \<and> SCTRLB (TWI0 s1) = 3
                         then [SDATA (TWI0 s1)] else []) @ out, s2)))
      else twi0_events evs s)"

fun twi1_events :: "twis_event list \<Rightarrow> manager \<Rightarrow> (byte list \<times> manager) option" where
  "twi1_events [] s = Some ([], s)"
| "twi1_events ((st, d, room) # evs) s =
     (if twis_raised (TWI1 s) st d then
        (case twi1_irq (st, d, room) s of
           None \<Rightarrow> None
         | Some s1 \<Rightarrow>
             (case twi1_events evs s1 of
                None \<Rightarrow> None
              | Some (out, s2) \<Rightarrow>
                  Some ((if twis_state st = TWIS_MREAD \<and> SCTRLB (TWI1 s1) = 3
                         then [SDATA (TWI1 s1)] else []) @ out, s2)))
      else twi1_events evs s)"

section \<open>Predicates used in the statements\<close>

text \<open>Every array of \<^verbatim>\<open>main.c\<close> has its declared size.\<close>

definition buffers_ok :: "manager \<Rightarrow> bool" where
  "buffers_ok s =
     (length (twi0RxBuffer s) = BUFF_SIZE \<and> length (twi0TxBuffer s) = BUFF_SIZE
      \<and> length (printOp1Buffer s) = BUFF_SIZE \<and> length (printOp2Buffer s) = BUFF_SIZE
      \<and> length (got_twi0_buf s) = BUFF_SIZE
      \<and> length (twi1RxBuffer s) = BUFF_SIZE \<and> length (twi1TxBuffer s) = BUFF_SIZE)"

text \<open>
  What holds of the host-facing session between any two of its events: the lengths
  are within the arrays, and while the transaction is open there is room for one more
  received byte.
\<close>

definition twi0_inv :: "manager \<Rightarrow> bool" where
  "twi0_inv s =
     (buffers_ok s
      \<and> unat (twi0RxBufferLength s) \<le> BUFF_SIZE
      \<and> unat (twi0TxBufferLength s) \<le> BUFF_SIZE
      \<and> (SCTRLB (TWI0 s) = 3 \<longrightarrow> unat (twi0RxBufferLength s) < BUFF_SIZE))"

text \<open>
  The application-facing bus between sessions, as \<^verbatim>\<open>setup\<close> leaves it: the slave
  address register holds \<^verbatim>\<open>fromHost_addr\<close> with the general call enabled, there is no
  mask or second address, both buffers are empty and no transaction is open.
\<close>

definition app_bus_idle :: "manager \<Rightarrow> bool" where
  "app_bus_idle s =
     (buffers_ok s
      \<and> SADDR (TWI1 s) = push_bit 1 fromHost_addr OR 1 \<and> SADDRMASK (TWI1 s) = 0
      \<and> twi1RxBufferLength s = 0 \<and> twi1TxBufferLength s = 0
      \<and> SCTRLB (TWI1 s) \<noteq> 3)"

text \<open>The arrays have their size and both diagnostic slots hold at most that many bytes.\<close>

definition monitor_ok :: "manager \<Rightarrow> bool" where
  "monitor_ok s =
     (buffers_ok s \<and> unat (printOp1BufferLength s) \<le> BUFF_SIZE
      \<and> unat (printOp2BufferLength s) \<le> BUFF_SIZE)"



text \<open>A master status that the completion interrupt does not take for progress.\<close>

definition failing_status :: "byte \<Rightarrow> bool" where
  "failing_status st = (st AND ANYERR \<noteq> 0 \<or> (st \<noteq> READOK \<and> st \<noteq> WRITEOK))"

section \<open>Concrete states and events\<close>

text \<open>
  The Manager after \<^verbatim>\<open>setup\<close>, with one tick to the millisecond and the tick counter
  at 0.
\<close>

definition manager_ready :: manager where
  "manager_ready = main_setup id 0 manager_reset"

text \<open>
  A write in flight on the master engine whose byte the target did not acknowledge: the
  status shows the write flag, the held clock, the received NACK and bus ownership.
\<close>

definition write_nacked :: manager where
  "write_nacked =
     manager_ready\<lparr>TWI0 := (TWI0 manager_ready)\<lparr>MCTRLA := 0xC1, MSTATUS := 0x72\<rparr>\<rparr>"

text \<open>
  The host writes the byte 7 to address 42 and, after a repeated start, reads one byte
  back: address for writing, one data byte, address for reading, the request for the
  first byte, the master's NACK after it, and the stop condition. The stream has room
  throughout.
\<close>

definition host_cmd7 :: "twis_event list" where
  "host_cmd7 = [(0x61, 0x54, True), (0xA0, 0x07, True), (0x63, 0x55, True),
                (0xA2, 0x00, True), (0xB2, 0x00, True), (0x40, 0x00, True)]"

definition state_after :: "twis_event list \<Rightarrow> manager \<Rightarrow> manager" where
  "state_after evs s = (case twi0_events evs s of Some (out, s') \<Rightarrow> s' | None \<Rightarrow> s)"

definition cmd7_before_stop :: manager where
  "cmd7_before_stop = state_after (butlast host_cmd7) manager_ready"

definition cmd7_received :: manager where
  "cmd7_received = state_after host_cmd7 manager_ready"

text \<open>
  What a pass through the main loop leaves of the routing: whether the loop goes on, the
  levels of the serial and of the programming-interface line, the relay flag and the
  blink period.
\<close>

definition result_view ::
  "loop_result option \<Rightarrow> (bool \<times> LOGIC_LEVEL_t \<times> LOGIC_LEVEL_t \<times> byte \<times> 32 word) option" where
  "result_view r =
     (case r of
        None \<Rightarrow> None
      | Some (Running s) \<Rightarrow>
          Some (True, io s MCU_IO_MGR_SETAPP4_UART, io s MCU_IO_MGR_SETAPP4_UPDI,
                got_twi0 s, blink_delay s)
      | Some (Halted s) \<Rightarrow>
          Some (False, io s MCU_IO_MGR_SETAPP4_UART, io s MCU_IO_MGR_SETAPP4_UPDI,
                got_twi0 s, blink_delay s))"

text \<open>
  A session on the host-facing bus whose last address phase differs from the one
  recorded with the first slot: the host writes the byte 1 to address 42 and restarts
  for reading (first list); it reads one byte, then sends the general-call address 0,
  which the callback rejects, and stops (second list).
\<close>

definition mismatch_part1 :: "twis_event list" where
  "mismatch_part1 = [(0x61, 0x54, True), (0xA0, 0x01, True), (0x63, 0x55, True)]"

definition mismatch_part2 :: "twis_event list" where
  "mismatch_part2 = [(0xA2, 0x00, True), (0xB2, 0x00, True), (0x61, 0x00, True),
                     (0x40, 0x00, True)]"

text \<open>
  One pass through the main loop with no input character, no time elapsed, room in the
  stream and one tick to the millisecond.
\<close>

definition pass_with_room :: "manager \<Rightarrow> manager" where
  "pass_with_room s =
     (case main_loop_body id None 0 True s of Some (Running s') \<Rightarrow> s' | _ \<Rightarrow> s)"

text \<open>
  The session above with one pass through the main loop between its two parts.
\<close>

definition mismatch_abandoned :: manager where
  "mismatch_abandoned =
     state_after mismatch_part2 (pass_with_room (state_after mismatch_part1 manager_ready))"

text \<open>
  A session of two phases with two targets: the host writes the byte 9 to address 42
  and, after a repeated start, sends the general-call address 0 for writing, which the
  peripheral recognises and the callback rejects; then it stops. The stream has room
  throughout.
\<close>

definition two_phase_mismatch :: "twis_event list" where
  "two_phase_mismatch = [(0x61, 0x54, True), (0xA0, 0x09, True), (0x61, 0x00, True),
                         (0x40, 0x00, True)]"

text \<open>
  Three more sessions on the host-facing bus: the host writes 33 bytes to address 42;
  the host writes the byte 7 and stops; the host addresses the Manager for reading
  and asks for one byte, the data register holding \<open>0xFF\<close> when the request arrives.
  \<open>bytes_sent\<close> is what a run of events transmits.
\<close>

definition write33 :: "twis_event list" where
  "write33 = (0x61, 0x54, True) # replicate 33 (0xA0, 0x5A, True)"

definition write7_stop :: "twis_event list" where
  "write7_stop = [(0x61, 0x54, True), (0xA0, 0x07, True), (0x40, 0x00, True)]"

definition read1 :: "twis_event list" where
  "read1 = [(0x63, 0x55, True), (0xA2, 0xFF, True)]"

text \<open>
  The same write without its stop event, and the same read with the data register still
  holding the address byte \<open>0x55\<close> when the first byte is asked for.
\<close>

definition write7_open :: "twis_event list" where
  "write7_open = [(0x61, 0x54, True), (0xA0, 0x07, True)]"

definition read1_addr :: "twis_event list" where
  "read1_addr = [(0x63, 0x55, True), (0xA2, 0x55, True)]"

definition bytes_sent :: "twis_event list \<Rightarrow> manager \<Rightarrow> byte list option" where
  "bytes_sent evs s = (case twi0_events evs s of Some (out, s') \<Rightarrow> Some out | None \<Rightarrow> None)"

text \<open>
  On the application-facing bus: a master addresses 42 for writing, offers a byte and
  stops.
\<close>

definition app_probe :: "twis_event list" where
  "app_probe = [(0x61, 0x54, True), (0xA0, 0x01, True), (0x40, 0x00, True)]"



section \<open>The master engine\<close>

lemma m_finished_eq:
  "m_finished cb tf s =
     call_twim_callback cb
       (s\<lparr>twi_lastResult := tf,
          TWI0 := (TWI0 s)\<lparr>MCTRLB := NACK OR STOP, MCTRLA := MCTRLA (TWI0 s) AND NOT RWIEN\<rparr>\<rparr>)"
  by (simp add: m_finished_def m_NACKstop_def m_irqAllOff_def)

lemma isr_cases:
  "TWI0_TWIM_vect cb s = m_finished cb False s
   \<or> TWI0_TWIM_vect cb s =
       m_finished cb True (s\<lparr>ram := (ram s)(rxbuf s := MDATA (TWI0 s)), rxbuf := rxbuf s + 1\<rparr>)
   \<or> TWI0_TWIM_vect cb s = m_finished cb True s
   \<or> (TWI0_TWIM_vect cb s = TWI0_TWIM_vect None s
       \<and> MCTRLA (TWI0 (TWI0_TWIM_vect None s)) = MCTRLA (TWI0 s)
       \<and> twi_lastResult (TWI0_TWIM_vect None s) = twi_lastResult s
       \<and> \<not> failing_status (MSTATUS (TWI0 s)))"
  by (simp add: TWI0_TWIM_vect_def m_status_def Let_def m_read_def m_ACKread_def
      m_write_def m_startRead_def m_ackActionACK_def failing_status_def)

lemma isr_failing:
  "failing_status (MSTATUS (TWI0 s)) \<Longrightarrow> TWI0_TWIM_vect cb s = m_finished cb False s"
  by (auto simp: TWI0_TWIM_vect_def m_status_def Let_def failing_status_def)

text \<open>
  C7. In the completion interrupt of the master engine, a status with an error bit set
  (arbitration lost or bus error) and any status that is neither the read-ready nor the
  write-acknowledged pattern finish the transaction with the result false. Whenever the
  handler finishes, with either result, the user's callback is entered in a state in
  which the result is stored, NACK+STOP is written to MCTRLB and both master interrupt
  enables are cleared. The handler finishes in the three ways listed, or else it does
  not enter the callback and leaves the enables and the result as they are.
\<close>

theorem twim_isr_fail_closed:
  "(failing_status (MSTATUS (TWI0 s)) \<longrightarrow> TWI0_TWIM_vect cb s = m_finished cb False s)
   \<and> m_finished cb tf s =
       call_twim_callback cb
         (s\<lparr>twi_lastResult := tf,
            TWI0 := (TWI0 s)\<lparr>MCTRLB := NACK OR STOP,
                              MCTRLA := MCTRLA (TWI0 s) AND NOT RWIEN\<rparr>\<rparr>)
   \<and> (TWI0_TWIM_vect cb s = m_finished cb False s
      \<or> TWI0_TWIM_vect cb s =
          m_finished cb True
            (s\<lparr>ram := (ram s)(rxbuf s := MDATA (TWI0 s)), rxbuf := rxbuf s + 1\<rparr>)
      \<or> TWI0_TWIM_vect cb s = m_finished cb True s
      \<or> (TWI0_TWIM_vect cb s = TWI0_TWIM_vect None s
          \<and> MCTRLA (TWI0 (TWI0_TWIM_vect None s)) = MCTRLA (TWI0 s)
          \<and> twi_lastResult (TWI0_TWIM_vect None s) = twi_lastResult s
          \<and> \<not> failing_status (MSTATUS (TWI0 s))))"
proof (intro conjI impI)
  assume "failing_status (MSTATUS (TWI0 s))"
  then show "TWI0_TWIM_vect cb s = m_finished cb False s"
    by (rule isr_failing)
next
  show "m_finished cb tf s =
       call_twim_callback cb
         (s\<lparr>twi_lastResult := tf,
            TWI0 := (TWI0 s)\<lparr>MCTRLB := NACK OR STOP,
                              MCTRLA := MCTRLA (TWI0 s) AND NOT RWIEN\<rparr>\<rparr>)"
    by (rule m_finished_eq)
next
  show "TWI0_TWIM_vect cb s = m_finished cb False s
      \<or> TWI0_TWIM_vect cb s =
          m_finished cb True
            (s\<lparr>ram := (ram s)(rxbuf s := MDATA (TWI0 s)), rxbuf := rxbuf s + 1\<rparr>)
      \<or> TWI0_TWIM_vect cb s = m_finished cb True s
      \<or> (TWI0_TWIM_vect cb s = TWI0_TWIM_vect None s
          \<and> MCTRLA (TWI0 (TWI0_TWIM_vect None s)) = MCTRLA (TWI0 s)
          \<and> twi_lastResult (TWI0_TWIM_vect None s) = twi_lastResult s
          \<and> \<not> failing_status (MSTATUS (TWI0 s)))"
    by (rule isr_cases)
qed

theorem twim_isr_fail_closed_witness:
  "failing_status (MSTATUS (TWI0 write_nacked))
   \<and> twi_lastResult (TWI0_TWIM_vect None write_nacked) = False
   \<and> MCTRLB (TWI0 (TWI0_TWIM_vect None write_nacked)) = 7
   \<and> MCTRLA (TWI0 (TWI0_TWIM_vect None write_nacked)) = 1"
proof -
  have f: "failing_status (MSTATUS (TWI0 write_nacked))"
    by (simp add: write_nacked_def failing_status_def twim_enum_defs)
  have a: "MCTRLA (TWI0 write_nacked) = 0xC1"
    by (simp add: write_nacked_def)
  from twim_isr_fail_closed [of write_nacked None False] f
  have "TWI0_TWIM_vect None write_nacked =
          write_nacked\<lparr>twi_lastResult := False,
            TWI0 := (TWI0 write_nacked)\<lparr>MCTRLB := NACK OR STOP,
                      MCTRLA := MCTRLA (TWI0 write_nacked) AND NOT RWIEN\<rparr>\<rparr>"
    by (simp add: call_twim_callback_def)
  then show ?thesis
    using f a by (simp add: twim_enum_defs)
qed

subsection \<open>The blocking wait\<close>



















section \<open>The relay between the host-facing bus and the main loop\<close>

lemma copy_loop_from:
  "i \<le> n \<Longrightarrow> n \<le> length src \<Longrightarrow> n \<le> length dst \<Longrightarrow>
     copy_loop i n src dst = Some (take i dst @ drop i (take n src) @ drop n dst)"
proof (induction i n src dst rule: copy_loop.induct)
  case (1 i n src dst)
  show ?case
  proof (cases "i < n")
    case True
    with "1.prems" have il: "i < length src" "i < length dst" by simp_all
    have step: "copy_loop i n src dst = copy_loop (Suc i) n src (dst[i := src ! i])"
      using True il by (subst copy_loop.simps) simp
    have ih: "copy_loop (Suc i) n src (dst[i := src ! i]) =
        Some (take (Suc i) (dst[i := src ! i]) @ drop (Suc i) (take n src)
              @ drop n (dst[i := src ! i]))"
      using True il "1.prems" by (intro "1.IH") simp_all
    have a: "take (Suc i) (dst[i := src ! i]) = take i dst @ [src ! i]"
      using il by (simp add: take_Suc_conv_app_nth)
    have b: "drop n (dst[i := src ! i]) = drop n dst"
      using True by simp
    have c: "drop i (take n src) = src ! i # drop (Suc i) (take n src)"
      using Cons_nth_drop_Suc [of i "take n src"] True il by simp
    show ?thesis
      by (simp add: step ih a b c)
  next
    case False
    with "1.prems" have "i = n" by simp
    then show ?thesis
      using "1.prems" by (subst copy_loop.simps) simp
  qed
qed

lemma copy_loop_0:
  "n \<le> length src \<Longrightarrow> n \<le> length dst \<Longrightarrow>
     copy_loop 0 n src dst = Some (take n src @ drop n dst)"
  using copy_loop_from [of 0 n src dst] by simp

lemma twi1sCallback_relay:
  "twi1sCallback room ev st s = Some (r, s') \<Longrightarrow>
     got_twi0 s' = got_twi0 s \<and> got_twi0_buf s' = got_twi0_buf s
     \<and> got_twi0BufferLength s' = got_twi0BufferLength s
     \<and> got_twi0BufferIndex s' = got_twi0BufferIndex s \<and> got_twi1 s' = got_twi1 s"
  by (cases ev)
     (auto simp: Let_def print_Op1_buf_if_possible_def print_Op2_buf_if_possible_def
        move_buffer_def uart1_put_def twis_write_def s_write_def
        split: if_splits option.splits prod.splits)


lemma twisCallback_stopped_write_read:
  assumes "buffers_ok s" "twi0TxBufferLength s \<noteq> 0" "twi0RxBufferLength s = 0"
    "unat (twi0TxBufferLength s) \<le> BUFF_SIZE"
  shows "\<exists>s'. twisCallback room TWIS_STOPPED st s = Some (True, s') \<and> got_twi0 s' = 1
          \<and> got_twi0BufferLength s' = twi0TxBufferLength s \<and> got_twi0BufferIndex s' = 0
          \<and> got_twi0_buf s' =
               take (unat (twi0TxBufferLength s)) (twi0TxBuffer s)
               @ drop (unat (twi0TxBufferLength s)) (got_twi0_buf s)"
  using assms
  by (simp add: buffers_ok_def Let_def print_Op2_buf_if_possible_def move_buffer_def
      copy_loop_0)

lemma twi1sCallback_stopped_total:
  assumes "buffers_ok s" "unat (twi1TxBufferLength s) \<le> BUFF_SIZE"
    "unat (twi1RxBufferLength s) \<le> BUFF_SIZE"
  shows "\<exists>s'. twi1sCallback room TWIS_STOPPED st s = Some (True, s')"
  using assms
  by (simp add: buffers_ok_def Let_def print_Op2_buf_if_possible_def
      print_Op1_buf_if_possible_def copy_loop_0)

lemma i2c_monitor_frame:
  assumes "monitor_ok s"
  shows "\<exists>s1. i2c_monitor s = Some s1 \<and> io s1 = io s \<and> got_twi0 s1 = got_twi0 s
           \<and> got_twi0_buf s1 = got_twi0_buf s \<and> got_twi1 s1 = got_twi1 s
           \<and> blink_delay s1 = blink_delay s"
proof -
  have a: "unat (printOp1BufferIndex s) < length (printOp1Buffer s)"
    if "\<not> printOp1BufferLength s \<le> printOp1BufferIndex s"
    using that assms by (simp add: monitor_ok_def buffers_ok_def word_le_nat_alt)
  have b: "unat (printOp2BufferIndex s) < length (printOp2Buffer s)"
    if "\<not> printOp2BufferLength s \<le> printOp2BufferIndex s"
    using that assms by (simp add: monitor_ok_def buffers_ok_def word_le_nat_alt)
  show ?thesis
    using a b by (simp add: i2c_monitor_def uart1_put_def)
qed

lemma main_loop_relay:
  assumes m: "monitor_ok s" and rx: "rx \<noteq> Some 36" and g: "got_twi0 s \<noteq> 0"
  shows "\<exists>s'. main_loop_body cnvrt_milli rx kRuntime True s = Some (Running s')
           \<and> got_twi0 s' = 0
           \<and> io s' MCU_IO_MGR_SETAPP4_UPDI =
               (if hd (got_twi0_buf s) = 7 then LOGIC_LEVEL_HIGH else LOGIC_LEVEL_LOW)
           \<and> io s' MCU_IO_MGR_SETAPP4_UART =
               (if hd (got_twi0_buf s) = 7 then LOGIC_LEVEL_LOW else LOGIC_LEVEL_HIGH)
           \<and> blink_delay s' =
               (if hd (got_twi0_buf s) = 7 then cnvrt_milli (BLINK_DELAY div 4)
                else cnvrt_milli BLINK_DELAY)"
proof -
  define s3 where "s3 =
    (case rx of None \<Rightarrow> s
     | Some input \<Rightarrow> (uart1_put (Echo input) s)\<lparr>got_a := (if input = 97 then 1 else 0)\<rparr>)"
  define s4 where "s4 = (if got_a s3 = 0 then blink kRuntime s3 else s3)"
  have keep3: "monitor_ok s3" "got_twi0 s3 = got_twi0 s" "got_twi0_buf s3 = got_twi0_buf s"
    by (cases rx; simp add: s3_def uart1_put_def monitor_ok_def buffers_ok_def m [unfolded monitor_ok_def buffers_ok_def])+
  have keep4: "monitor_ok s4" "got_twi0 s4 = got_twi0 s" "got_twi0_buf s4 = got_twi0_buf s"
    using keep3 by (simp_all add: s4_def blink_def ioToggle_def monitor_ok_def buffers_ok_def)
  have body: "main_loop_body cnvrt_milli rx kRuntime True s =
      (case main_uart_section cnvrt_milli s4 of None \<Rightarrow> None | Some x \<Rightarrow> Some (Running x))"
    using rx by (cases rx) (simp_all add: main_loop_body_def s4_def s3_def Let_def)
  from i2c_monitor_frame [OF keep4(1)] obtain s5 where
    s5: "i2c_monitor s4 = Some s5" "io s5 = io s4" "got_twi0 s5 = got_twi0 s4"
      "got_twi0_buf s5 = got_twi0_buf s4" "got_twi1 s5 = got_twi1 s4"
      "blink_delay s5 = blink_delay s4"
    by blast
  have ne: "got_twi0_buf s \<noteq> []"
    using m by (auto simp: monitor_ok_def buffers_ok_def BUFF_SIZE_def)
  then obtain b bs where bs: "got_twi0_buf s = b # bs"
    by (cases "got_twi0_buf s") auto
  show ?thesis
    using g by (simp add: body main_uart_section_def s5 keep4 bs Let_def ioWrite_def)
qed


text \<open>
  C4. On a stop event with a non-empty transmit buffer and an empty receive buffer (a
  write followed by a read), the callback of the host-facing bus copies the transmit
  payload into \<^verbatim>\<open>got_twi0_buf\<close>, records its length and sets the flag \<^verbatim>\<open>got_twi0\<close>.
  The callback of the application-facing bus changes neither the relay record nor
  either relay flag, on a stop event or on any other; its stop branch runs to the end
  whenever the lengths are within the arrays.
\<close>

theorem relay_record_written_by_host_callback_only:
  "(buffers_ok s \<and> twi0TxBufferLength s \<noteq> 0 \<and> twi0RxBufferLength s = 0
      \<and> unat (twi0TxBufferLength s) \<le> BUFF_SIZE \<longrightarrow>
      (\<exists>s'. twisCallback room TWIS_STOPPED st s = Some (True, s') \<and> got_twi0 s' = 1
          \<and> got_twi0BufferLength s' = twi0TxBufferLength s \<and> got_twi0BufferIndex s' = 0
          \<and> got_twi0_buf s' =
               take (unat (twi0TxBufferLength s)) (twi0TxBuffer s)
               @ drop (unat (twi0TxBufferLength s)) (got_twi0_buf s)))
   \<and> (buffers_ok s \<and> unat (twi1TxBufferLength s) \<le> BUFF_SIZE
        \<and> unat (twi1RxBufferLength s) \<le> BUFF_SIZE \<longrightarrow>
        (\<exists>s1. twi1sCallback room TWIS_STOPPED st s = Some (True, s1)))
   \<and> (\<forall>ev r s1. twi1sCallback room ev st s = Some (r, s1) \<longrightarrow>
         got_twi0 s1 = got_twi0 s \<and> got_twi0_buf s1 = got_twi0_buf s
         \<and> got_twi0BufferLength s1 = got_twi0BufferLength s
         \<and> got_twi0BufferIndex s1 = got_twi0BufferIndex s \<and> got_twi1 s1 = got_twi1 s)"
  using twisCallback_stopped_write_read [of s room st]
    twi1sCallback_stopped_total [of s room st] twi1sCallback_relay [of room _ st s]
  by blast


theorem relay_record_written_by_host_callback_only_witness:
  "buffers_ok cmd7_before_stop \<and> twi0TxBufferLength cmd7_before_stop \<noteq> 0
   \<and> twi0RxBufferLength cmd7_before_stop = 0
   \<and> unat (twi0TxBufferLength cmd7_before_stop) \<le> BUFF_SIZE
   \<and> unat (twi1TxBufferLength cmd7_before_stop) \<le> BUFF_SIZE
   \<and> unat (twi1RxBufferLength cmd7_before_stop) \<le> BUFF_SIZE
   \<and> (\<exists>s'. twisCallback True TWIS_STOPPED 0x40 cmd7_before_stop = Some (True, s')
          \<and> got_twi0 s' = 1 \<and> got_twi0BufferLength s' = 1 \<and> hd (got_twi0_buf s') = 7)
   \<and> (\<exists>s1. twi1sCallback True TWIS_STOPPED 0x40 cmd7_before_stop = Some (True, s1)
          \<and> got_twi0 s1 = 0 \<and> got_twi1 s1 = 0)"
proof -
  have h: "buffers_ok cmd7_before_stop" "twi0TxBufferLength cmd7_before_stop \<noteq> 0"
    "twi0RxBufferLength cmd7_before_stop = 0"
    "unat (twi0TxBufferLength cmd7_before_stop) \<le> BUFF_SIZE"
    "unat (twi1TxBufferLength cmd7_before_stop) \<le> BUFF_SIZE"
    "unat (twi1RxBufferLength cmd7_before_stop) \<le> BUFF_SIZE"
    by code_simp+
  have v: "twi0TxBufferLength cmd7_before_stop = 1" "hd (twi0TxBuffer cmd7_before_stop) = 7"
    "got_twi0 cmd7_before_stop = 0" "got_twi1 cmd7_before_stop = 0"
    "twi0TxBuffer cmd7_before_stop \<noteq> []"
    by code_simp+
  from relay_record_written_by_host_callback_only [of cmd7_before_stop True "0x40"] h
  obtain s' s1 where
    a: "twisCallback True TWIS_STOPPED 0x40 cmd7_before_stop = Some (True, s')"
       "got_twi0 s' = 1" "got_twi0BufferLength s' = twi0TxBufferLength cmd7_before_stop"
       "got_twi0_buf s' =
               take (unat (twi0TxBufferLength cmd7_before_stop)) (twi0TxBuffer cmd7_before_stop)
               @ drop (unat (twi0TxBufferLength cmd7_before_stop)) (got_twi0_buf cmd7_before_stop)"
    and b: "twi1sCallback True TWIS_STOPPED 0x40 cmd7_before_stop = Some (True, s1)"
       "got_twi0 s1 = got_twi0 cmd7_before_stop" "got_twi1 s1 = got_twi1 cmd7_before_stop"
    by blast
  have "hd (got_twi0_buf s') = 7"
    using v by (cases "twi0TxBuffer cmd7_before_stop") (simp_all add: a)
  with a b h v show ?thesis by simp
qed

lemma main_loop_no_room:
  assumes rx: "rx \<noteq> Some 36"
  shows "\<exists>s'. main_loop_body cnvrt_milli rx kRuntime False s = Some (Running s')
           \<and> got_twi0 s' = got_twi0 s \<and> got_twi0_buf s' = got_twi0_buf s
           \<and> io s' MCU_IO_MGR_SETAPP4_UART = io s MCU_IO_MGR_SETAPP4_UART
           \<and> io s' MCU_IO_MGR_SETAPP4_UPDI = io s MCU_IO_MGR_SETAPP4_UPDI"
  using rx
  by (cases rx)
     (simp_all add: main_loop_body_def Let_def blink_def ioToggle_def uart1_put_def)

lemma main_loop_abort:
  "\<exists>h. main_loop_body cnvrt_milli (Some 36) kRuntime room s = Some (Halted h)
        \<and> io h MCU_IO_MGR_SETAPP4_UART = LOGIC_LEVEL_LOW
        \<and> io h MCU_IO_MGR_SETAPP4_UPDI = LOGIC_LEVEL_LOW
        \<and> got_twi0 h = got_twi0 s"
  by (simp add: main_loop_body_def Let_def abort_safe_def ioWrite_def uart1_put_def
      twi1m_off_def m1_off_def twim_off_def m_off_def)

text \<open>
  C1, as the code has it. The relay flag is set after a write-then-read session of the
  host. A pass through the main loop in which the debug stream has room for writing,
  and which does not meet the abort character, drives the programming-interface line
  high and the serial line low when the first byte of the relayed payload is 7, and
  the serial line high and the programming-interface line low for any other first
  byte; in both cases it clears the flag. (The diagnostic slots are within their
  arrays, so that the monitor, which runs first, reads in bounds.) A pass in which the
  stream has no room, and which does not meet the abort character, leaves the flag, the
  relayed payload and both lines as they are. A pass that meets the abort character
  \<^verbatim>\<open>'$'\<close> goes into \<^verbatim>\<open>abort_safe\<close> before the stream is asked for room: both lines
  are driven low, the flag is not looked at, and the pass never ends.
\<close>

theorem command_dispatch_when_stream_has_room:
  "(monitor_ok s \<and> rx \<noteq> Some 36 \<and> got_twi0 s \<noteq> 0 \<longrightarrow>
     (\<exists>s'. main_loop_body cnvrt_milli rx kRuntime True s = Some (Running s')
        \<and> got_twi0 s' = 0
        \<and> (hd (got_twi0_buf s) = 7 \<longrightarrow>
             io s' MCU_IO_MGR_SETAPP4_UPDI = LOGIC_LEVEL_HIGH
             \<and> io s' MCU_IO_MGR_SETAPP4_UART = LOGIC_LEVEL_LOW)
        \<and> (hd (got_twi0_buf s) \<noteq> 7 \<longrightarrow>
             io s' MCU_IO_MGR_SETAPP4_UART = LOGIC_LEVEL_HIGH
             \<and> io s' MCU_IO_MGR_SETAPP4_UPDI = LOGIC_LEVEL_LOW)))
   \<and> (rx \<noteq> Some 36 \<longrightarrow>
        (\<exists>s'. main_loop_body cnvrt_milli rx kRuntime False s = Some (Running s')
           \<and> got_twi0 s' = got_twi0 s \<and> got_twi0_buf s' = got_twi0_buf s
           \<and> io s' MCU_IO_MGR_SETAPP4_UART = io s MCU_IO_MGR_SETAPP4_UART
           \<and> io s' MCU_IO_MGR_SETAPP4_UPDI = io s MCU_IO_MGR_SETAPP4_UPDI))
   \<and> (\<exists>h. main_loop_body cnvrt_milli (Some 36) kRuntime room s = Some (Halted h)
        \<and> io h MCU_IO_MGR_SETAPP4_UART = LOGIC_LEVEL_LOW
        \<and> io h MCU_IO_MGR_SETAPP4_UPDI = LOGIC_LEVEL_LOW
        \<and> got_twi0 h = got_twi0 s)"
proof (intro conjI impI)
  assume a: "monitor_ok s \<and> rx \<noteq> Some 36 \<and> got_twi0 s \<noteq> 0"
  then obtain s' where
    "main_loop_body cnvrt_milli rx kRuntime True s = Some (Running s')" "got_twi0 s' = 0"
    "io s' MCU_IO_MGR_SETAPP4_UPDI =
               (if hd (got_twi0_buf s) = 7 then LOGIC_LEVEL_HIGH else LOGIC_LEVEL_LOW)"
    "io s' MCU_IO_MGR_SETAPP4_UART =
               (if hd (got_twi0_buf s) = 7 then LOGIC_LEVEL_LOW else LOGIC_LEVEL_HIGH)"
    using main_loop_relay [of s rx cnvrt_milli kRuntime] by blast
  then show "\<exists>s'. main_loop_body cnvrt_milli rx kRuntime True s = Some (Running s')
        \<and> got_twi0 s' = 0
        \<and> (hd (got_twi0_buf s) = 7 \<longrightarrow>
             io s' MCU_IO_MGR_SETAPP4_UPDI = LOGIC_LEVEL_HIGH
             \<and> io s' MCU_IO_MGR_SETAPP4_UART = LOGIC_LEVEL_LOW)
        \<and> (hd (got_twi0_buf s) \<noteq> 7 \<longrightarrow>
             io s' MCU_IO_MGR_SETAPP4_UART = LOGIC_LEVEL_HIGH
             \<and> io s' MCU_IO_MGR_SETAPP4_UPDI = LOGIC_LEVEL_LOW)"
    by (intro exI [of _ s']) simp
next
  assume "rx \<noteq> Some 36"
  then show "\<exists>s'. main_loop_body cnvrt_milli rx kRuntime False s = Some (Running s')
           \<and> got_twi0 s' = got_twi0 s \<and> got_twi0_buf s' = got_twi0_buf s
           \<and> io s' MCU_IO_MGR_SETAPP4_UART = io s MCU_IO_MGR_SETAPP4_UART
           \<and> io s' MCU_IO_MGR_SETAPP4_UPDI = io s MCU_IO_MGR_SETAPP4_UPDI"
    by (rule main_loop_no_room)
next
  show "\<exists>h. main_loop_body cnvrt_milli (Some 36) kRuntime room s = Some (Halted h)
        \<and> io h MCU_IO_MGR_SETAPP4_UART = LOGIC_LEVEL_LOW
        \<and> io h MCU_IO_MGR_SETAPP4_UPDI = LOGIC_LEVEL_LOW
        \<and> got_twi0 h = got_twi0 s"
    by (rule main_loop_abort)
qed

theorem command_dispatch_when_stream_has_room_witness:
  "monitor_ok cmd7_received \<and> got_twi0 cmd7_received \<noteq> 0
   \<and> hd (got_twi0_buf cmd7_received) = 7
   \<and> (\<exists>s'. main_loop_body id None 0 True cmd7_received = Some (Running s')
        \<and> got_twi0 s' = 0
        \<and> io s' MCU_IO_MGR_SETAPP4_UPDI = LOGIC_LEVEL_HIGH
        \<and> io s' MCU_IO_MGR_SETAPP4_UART = LOGIC_LEVEL_LOW)
   \<and> (\<exists>s'. main_loop_body id (Some 97) 0 False cmd7_received = Some (Running s')
        \<and> got_twi0 s' = got_twi0 cmd7_received
        \<and> io s' MCU_IO_MGR_SETAPP4_UPDI = io cmd7_received MCU_IO_MGR_SETAPP4_UPDI)"
proof -
  have h: "monitor_ok cmd7_received" "got_twi0 cmd7_received \<noteq> 0"
    "hd (got_twi0_buf cmd7_received) = 7"
    by code_simp+
  have n: "(None :: int option) \<noteq> Some 36" "Some (97 :: int) \<noteq> Some 36"
    by simp_all
  from command_dispatch_when_stream_has_room [of cmd7_received None id 0]
       command_dispatch_when_stream_has_room [of cmd7_received "Some 97" id 0] h n
  show ?thesis by auto
qed

text \<open>
  The statement of the specification fails for a pass in which the stream has no room: after
  the session that delivers the command byte 7 the flag is set, and the next pass
  leaves the serial line high, the programming-interface line low and the flag set.
\<close>

theorem command_dispatch_without_room_counterexample:
  "got_twi0 cmd7_received = 1 \<and> hd (got_twi0_buf cmd7_received) = 7
   \<and> result_view (main_loop_body id None 0 False cmd7_received)
       = Some (True, LOGIC_LEVEL_HIGH, LOGIC_LEVEL_LOW, 1, 1000)"
  by code_simp

text \<open>
  C8, as the code has it. When a pass through the main loop handles a relay record
  whose first byte is 7, the blink period becomes the conversion of
  \<^verbatim>\<open>BLINK_DELAY/4\<close>, a quarter of the normal 1000 milliseconds; for any other first
  byte it becomes the conversion of the full \<^verbatim>\<open>BLINK_DELAY\<close>.
\<close>

theorem blink_period_on_mode_switch:
  "(monitor_ok s \<and> rx \<noteq> Some 36 \<and> got_twi0 s \<noteq> 0 \<longrightarrow>
     (\<exists>s'. main_loop_body cnvrt_milli rx kRuntime True s = Some (Running s')
        \<and> blink_delay s' =
            (if hd (got_twi0_buf s) = 7 then cnvrt_milli (BLINK_DELAY div 4)
             else cnvrt_milli BLINK_DELAY)))
   \<and> BLINK_DELAY div 4 = 250"
proof
  show "monitor_ok s \<and> rx \<noteq> Some 36 \<and> got_twi0 s \<noteq> 0 \<longrightarrow>
     (\<exists>s'. main_loop_body cnvrt_milli rx kRuntime True s = Some (Running s')
        \<and> blink_delay s' =
            (if hd (got_twi0_buf s) = 7 then cnvrt_milli (BLINK_DELAY div 4)
             else cnvrt_milli BLINK_DELAY))"
    using main_loop_relay [of s rx cnvrt_milli kRuntime] by blast
  show "BLINK_DELAY div 4 = 250"
    by (simp add: BLINK_DELAY_def)
qed

theorem blink_period_on_mode_switch_witness:
  "monitor_ok cmd7_received \<and> got_twi0 cmd7_received \<noteq> 0
   \<and> hd (got_twi0_buf cmd7_received) = 7
   \<and> (\<exists>s'. main_loop_body id None 0 True cmd7_received = Some (Running s')
        \<and> blink_delay s' = 250)"
proof -
  have h: "monitor_ok cmd7_received" "got_twi0 cmd7_received \<noteq> 0"
    "hd (got_twi0_buf cmd7_received) = 7"
    by code_simp+
  from blink_period_on_mode_switch [of cmd7_received None id 0] h
  show ?thesis by auto
qed

text \<open>
  The period is not halved: with one tick to the millisecond the pass that switches to
  the programming interface leaves 250 ticks, where half of the normal period is 500.
\<close>

theorem blink_period_halved_counterexample:
  "hd (got_twi0_buf cmd7_received) = 7
   \<and> result_view (main_loop_body id None 0 True cmd7_received)
       = Some (True, LOGIC_LEVEL_LOW, LOGIC_LEVEL_HIGH, 0, 250)
   \<and> id (BLINK_DELAY div 2) = (500 :: 32 word)
   \<and> id BLINK_DELAY = (1000 :: 32 word)"
  by code_simp


section \<open>The diagnostic slots\<close>

lemma print_Op2_mismatch:
  assumes "printing s \<noteq> 0" "print_slave_addr s \<noteq> lastAddress"
    "unat bufsize \<le> length buf" "unat bufsize \<le> length (printOp2Buffer s)"
  shows "\<exists>s'. print_Op2_buf_if_possible rw buf bufsize lastAddress s = Some (False, s')
        \<and> printOp1BufferLength s' = 0 \<and> printOp2BufferLength s' = 0 \<and> printing s' = 0
        \<and> uart1_out s' = uart1_out s \<and> debug_print_done s' = debug_print_done s
        \<and> (debug_print_done s = 0 \<longrightarrow> i2c_monitor s' = Some s')"
  using assms
  by (simp add: print_Op2_buf_if_possible_def copy_loop_0 Let_def i2c_monitor_def)

text \<open>
  The first slot is not queued when the first phase is addressed but at the address
  event that follows a write, by which time the handler has already stored the address
  of the new phase: the address recorded with the first slot is the address of the
  phase that begins, not of the phase whose bytes the slot holds.
\<close>

lemma first_slot_records_current_address:
  assumes "buffers_ok s" "twi0RxBufferLength s \<noteq> 0" "unat (twi0RxBufferLength s) \<le> BUFF_SIZE"
    "twis_state st = TWIS_ADDRESSED"
  shows "\<exists>s'. twi0_irq (st, d, room) s = Some s'
           \<and> twis_lastAddress s' = drop_bit 1 d
           \<and> (printing s' \<noteq> 0 \<longrightarrow> print_slave_addr s' = twis_lastAddress s')"
  using assms
  by (simp add: twi0_irq_def TWI0_TWIS_vect_def s_status_def s_read_def Let_def
      twis_lastAddress_def s_ack_def s_nackComplete_def buffers_ok_def
      print_Op1_buf_if_possible_def move_buffer_def copy_loop_0 BUFF_SIZE_def)

text \<open>
  C5. The specification has a compound session whose two phases address different
  targets produce no diagnostic record, with both slot lengths at zero and the printing
  flag cleared. The code does otherwise for the session in which the host writes the
  byte 9 to address 42, restarts with the general-call address 0 and stops. Nothing is
  transmitted. Before the second address event the last matched address is 42; at that
  event it becomes 0, and the first slot is queued with 0 as its address. At the stop
  event \<^verbatim>\<open>print_Op2_buf_if_possible\<close> compares the last matched address, 0, with the
  recorded one, 0, and queues the second slot: the printing flag stays set and both
  slot lengths are 1. The following passes through the main loop emit the opening of a
  record for address 0, the status, the length and the byte written to address 42.
\<close>

theorem two_phase_mismatch_is_printed:
  "drop_bit 1 (0x54 :: byte) = (42 :: byte) \<and> drop_bit 1 (0x00 :: byte) = (0 :: byte)
   \<and> bytes_sent two_phase_mismatch manager_ready = Some []
   \<and> twis_lastAddress (state_after (take 2 two_phase_mismatch) manager_ready) = 42
   \<and> printing (state_after (take 2 two_phase_mismatch) manager_ready) = 0
   \<and> twis_lastAddress (state_after (take 3 two_phase_mismatch) manager_ready) = 0
   \<and> printing (state_after (take 3 two_phase_mismatch) manager_ready) = 1
   \<and> print_slave_addr (state_after (take 3 two_phase_mismatch) manager_ready) = 0
   \<and> printing (state_after two_phase_mismatch manager_ready) = 1
   \<and> printOp1BufferLength (state_after two_phase_mismatch manager_ready) = 1
   \<and> printOp2BufferLength (state_after two_phase_mismatch manager_ready) = 1
   \<and> uart1_out (state_after two_phase_mismatch manager_ready) = []
   \<and> uart1_out (pass_with_room (pass_with_room (pass_with_room (pass_with_room
                   (state_after two_phase_mismatch manager_ready)))))
       = [Monitor_open 0, Status 0x61, Len 1, W1 9]"
  by code_simp

text \<open>
  The comparison tells two targets apart only from the third phase on, and then the
  monitor may have opened the record already: the host writes the byte 1 to address 42
  and restarts for reading, the main loop polls the monitor once, the host reads,
  restarts with the general-call address and stops. The stop event abandons printing
  with both lengths at zero, and the following polls emit the status, the length and
  the closing fragment.
\<close>

lemma three_phase_mismatch_abandoned_late:
  "uart1_out (state_after mismatch_part1 manager_ready) = []
   \<and> uart1_out (pass_with_room (state_after mismatch_part1 manager_ready)) = [Monitor_open 42]
   \<and> print_slave_addr mismatch_abandoned = 42 \<and> twis_lastAddress mismatch_abandoned = 0
   \<and> printOp1BufferLength mismatch_abandoned = 0
   \<and> printOp2BufferLength mismatch_abandoned = 0
   \<and> printing mismatch_abandoned = 0
   \<and> uart1_out (pass_with_room (pass_with_room (pass_with_room (pass_with_room
                   mismatch_abandoned))))
       = [Monitor_open 42, Status 0x61, Len 0, Monitor_close]"
  by code_simp

section \<open>Sessions on the two buses\<close>

lemma buffers_ok_reset: "buffers_ok manager_reset"
  by (simp add: buffers_ok_def manager_reset_def Buffer0_def)

lemma app_bus_idle_setup: "app_bus_idle (main_setup cnvrt_milli tick manager_reset)"
  using buffers_ok_reset
  by (simp add: app_bus_idle_def buffers_ok_def main_setup_def Let_def ioWrite_def
      twis_init_def twi1s_init_def s_on_def s_irqAllOn_def s_gencall_def twis_off_def
      s_clearFlags_def s_off_def s_irqAllOff_def s1_on_def s1_irqAllOn_def s1_gencall_def
      twi1s_off_def s1_clearFlags_def s1_off_def s1_irqAllOff_def)
     (simp add: manager_reset_def TWI_reset_def)

lemma xor_zero_eq: "a XOR b = 0 \<Longrightarrow> a = b" for a b :: byte
proof -
  assume "a XOR b = 0"
  then have "(a XOR b) XOR b = b" by simp
  then show ?thesis by (simp add: xor.assoc)
qed

lemma app_match:
  "app_bus_idle s \<Longrightarrow> twis_address_match (TWI1 s) a \<longleftrightarrow> a = fromHost_addr \<or> a = 0"
  by (auto simp: app_bus_idle_def twis_address_match_def fromHost_addr_def Let_def
      dest: xor_zero_eq)

lemma app_addressed:
  assumes i: "app_bus_idle s" and a: "twis_state st = TWIS_ADDRESSED"
    and r: "twis_raised (TWI1 s) st d"
  shows "\<exists>sc s'. twi1sCallback room TWIS_ADDRESSED st
                  (s\<lparr>TWI1 := (TWI1 s)\<lparr>SSTATUS := st, SDATA := d\<rparr>,
                     s1_lastAddress := drop_bit 1 d, is1st_1 := True\<rparr>) = Some (False, sc)
           \<and> twi1_irq (st, d, room) s = Some s' \<and> SCTRLB (TWI1 s') = 6
           \<and> app_bus_idle s'"
proof -
  from r a have "twis_address_match (TWI1 s) (drop_bit 1 d)"
    by (simp add: twis_raised_def)
  with i have "drop_bit 1 d = fromHost_addr \<or> drop_bit 1 d = 0"
    by (simp add: app_match)
  then have ne: "drop_bit 1 d \<noteq> fromApp_addr"
    by (auto simp: fromHost_addr_def fromApp_addr_def)
  show ?thesis
    using i a ne
    by (simp add: twi1_irq_def TWI1_TWIS_vect_def s1_status_def s1_read_def Let_def
        twi1s_lastAddress_def s1_nackComplete_def app_bus_idle_def buffers_ok_def)
qed

lemma app_step:
  assumes i: "app_bus_idle s" and r: "twis_raised (TWI1 s) st d"
  shows "\<exists>s'. twi1_irq (st, d, room) s = Some s' \<and> SCTRLB (TWI1 s') = 6 \<and> app_bus_idle s'"
proof (cases "twis_state st")
  case TWIS_ADDRESSED
  with app_addressed [OF i _ r] show ?thesis by blast
next
  case TWIS_MREAD
  with i r show ?thesis by (simp add: twis_raised_def app_bus_idle_def)
next
  case TWIS_MWRITE
  with i r show ?thesis by (simp add: twis_raised_def app_bus_idle_def)
next
  case TWIS_STOPPED
  with i show ?thesis
    by (simp add: twi1_irq_def TWI1_TWIS_vect_def s1_status_def Let_def
        s1_nackComplete_def app_bus_idle_def buffers_ok_def uart1_put_def)
next
  case TWIS_ERROR
  with i show ?thesis
    by (simp add: twi1_irq_def TWI1_TWIS_vect_def s1_status_def Let_def
        s1_nackComplete_def app_bus_idle_def buffers_ok_def)
qed

lemma app_run:
  "app_bus_idle s \<Longrightarrow> \<exists>s'. twi1_events evs s = Some ([], s') \<and> app_bus_idle s'"
proof (induction evs arbitrary: s)
  case Nil
  then show ?case by simp
next
  case (Cons e evs)
  obtain st d room where e: "e = (st, d, room)"
    by (cases e) auto
  show ?case
  proof (cases "twis_raised (TWI1 s) st d")
    case True
    from app_step [OF Cons.prems True, of room] obtain s1 where
      s1: "twi1_irq (st, d, room) s = Some s1" "SCTRLB (TWI1 s1) = 6" "app_bus_idle s1"
      by blast
    from Cons.IH [OF s1(3)] obtain s2 where
      "twi1_events evs s1 = Some ([], s2)" "app_bus_idle s2"
      by blast
    with True s1 show ?thesis
      by (simp add: e)
  next
    case False
    with Cons.IH [OF Cons.prems] show ?thesis
      by (simp add: e)
  qed
qed

lemma unat_succ_byte: "unat x < 32 \<Longrightarrow> unat (x + 1) = Suc (unat x)" for x :: byte
  by (simp add: unat_word_ariths)

lemma twi0_step_addressed:
  assumes i: "twi0_inv s" and k: "twis_state st = TWIS_ADDRESSED"
  shows "\<exists>s'. twi0_irq (st, d, room) s = Some s' \<and> twi0_inv s'"
  using i k
  by (simp add: twi0_irq_def TWI0_TWIS_vect_def s_status_def s_read_def Let_def
      twis_lastAddress_def s_nackComplete_def s_ack_def twi0_inv_def buffers_ok_def
      print_Op1_buf_if_possible_def move_buffer_def copy_loop_0 BUFF_SIZE_def)

lemma twi0_step_mread:
  assumes i: "twi0_inv s" and k: "twis_state st = TWIS_MREAD" and a: "SCTRLB (TWI0 s) = 3"
  shows "\<exists>s'. twi0_irq (st, d, room) s = Some s' \<and> twi0_inv s'"
proof -
  have b: "unat (twi0TxBufferIndex s) < length (twi0TxBuffer s)"
    if "twi0TxBufferIndex s < twi0TxBufferLength s"
    using that i by (simp add: twi0_inv_def buffers_ok_def word_less_nat_alt)
  show ?thesis
    using i k a b
    by (simp add: twi0_irq_def TWI0_TWIS_vect_def s_status_def Let_def twis_write_def
        s_write_def s_nackComplete_def s_ack_def twi0_inv_def buffers_ok_def)
qed

lemma twi0_step_mwrite:
  assumes i: "twi0_inv s" and k: "twis_state st = TWIS_MWRITE" and a: "SCTRLB (TWI0 s) = 3"
  shows "\<exists>s'. twi0_irq (st, d, room) s = Some s' \<and> twi0_inv s'"
proof -
  from i a have lt: "unat (twi0RxBufferLength s) < 32"
    by (simp add: twi0_inv_def BUFF_SIZE_def)
  show ?thesis
    using i k lt unat_succ_byte [OF lt]
    by (simp add: twi0_irq_def TWI0_TWIS_vect_def s_status_def Let_def twis_read_def
        s_read_def s_nackComplete_def s_ack_def twi0_inv_def buffers_ok_def BUFF_SIZE_def)
qed

lemma twi0_step_stopped:
  assumes i: "twi0_inv s" and k: "twis_state st = TWIS_STOPPED"
  shows "\<exists>s'. twi0_irq (st, d, room) s = Some s' \<and> twi0_inv s'"
  using i k
  by (simp add: twi0_irq_def TWI0_TWIS_vect_def s_status_def Let_def
      twis_lastAddress_def s_nackComplete_def twi0_inv_def buffers_ok_def uart1_put_def
      print_Op1_buf_if_possible_def print_Op2_buf_if_possible_def move_buffer_def
      copy_loop_0 BUFF_SIZE_def)

lemma twi0_step_error:
  assumes i: "twi0_inv s" and k: "twis_state st = TWIS_ERROR"
  shows "\<exists>s'. twi0_irq (st, d, room) s = Some s' \<and> twi0_inv s'"
  using i k
  by (simp add: twi0_irq_def TWI0_TWIS_vect_def s_status_def Let_def
      s_nackComplete_def twi0_inv_def buffers_ok_def)

lemma twi0_step:
  assumes i: "twi0_inv s" and r: "twis_raised (TWI0 s) st d"
  shows "\<exists>s'. twi0_irq (st, d, room) s = Some s' \<and> twi0_inv s'"
proof (cases "twis_state st")
  case TWIS_ADDRESSED
  with i show ?thesis by (rule twi0_step_addressed)
next
  case TWIS_MREAD
  with r have "SCTRLB (TWI0 s) = 3" by (simp add: twis_raised_def)
  with i TWIS_MREAD show ?thesis by (rule twi0_step_mread)
next
  case TWIS_MWRITE
  with r have "SCTRLB (TWI0 s) = 3" by (simp add: twis_raised_def)
  with i TWIS_MWRITE show ?thesis by (rule twi0_step_mwrite)
next
  case TWIS_STOPPED
  with i show ?thesis by (rule twi0_step_stopped)
next
  case TWIS_ERROR
  with i show ?thesis by (rule twi0_step_error)
qed

lemma twi0_run:
  "twi0_inv s \<Longrightarrow> \<exists>out s'. twi0_events evs s = Some (out, s') \<and> twi0_inv s'"
proof (induction evs arbitrary: s)
  case Nil
  then show ?case by simp
next
  case (Cons e evs)
  obtain st d room where e: "e = (st, d, room)"
    by (cases e) auto
  show ?case
  proof (cases "twis_raised (TWI0 s) st d")
    case True
    from twi0_step [OF Cons.prems True, of room] obtain s1 where
      s1: "twi0_irq (st, d, room) s = Some s1" "twi0_inv s1"
      by blast
    from Cons.IH [OF s1(2)] obtain out s2 where
      "twi0_events evs s1 = Some (out, s2)" "twi0_inv s2"
      by blast
    with True s1 show ?thesis
      by (simp add: e)
  next
    case False
    with Cons.IH [OF Cons.prems] show ?thesis
      by (simp add: e)
  qed
qed

lemma twi0_events_append:
  "twi0_events (xs @ ys) s =
     (case twi0_events xs s of
        None \<Rightarrow> None
      | Some (o1, s1) \<Rightarrow>
          (case twi0_events ys s1 of
             None \<Rightarrow> None
           | Some (o2, s2) \<Rightarrow> Some (o1 @ o2, s2)))"
proof (induction xs arbitrary: s)
  case Nil
  show ?case by (simp split: option.split)
next
  case (Cons e xs)
  obtain st d room where e: "e = (st, d, room)"
    by (cases e) auto
  show ?case
    by (simp add: e Cons.IH split: option.split)
qed

lemma mread_step:
  assumes b: "buffers_ok s" and a: "SCTRLB (TWI0 s) = 3"
    and l: "unat (twi0TxBufferLength s) \<le> 32"
    and k: "twis_state st = TWIS_MREAD" and n: "is1st s \<or> \<not> isRxNack st"
  shows "\<exists>s1. twi0_irq (st, d, room) s = Some s1 \<and> buffers_ok s1 \<and> SCTRLB (TWI0 s1) = 3
           \<and> \<not> is1st s1
           \<and> twi0TxBuffer s1 = twi0TxBuffer s
           \<and> twi0TxBufferLength s1 = twi0TxBufferLength s
           \<and> twi0TxBufferIndex s1 =
               (if twi0TxBufferIndex s < twi0TxBufferLength s then twi0TxBufferIndex s + 1
                else twi0TxBufferIndex s)
           \<and> SDATA (TWI0 s1) =
               (if twi0TxBufferIndex s < twi0TxBufferLength s
                then twi0TxBuffer s ! unat (twi0TxBufferIndex s) else d)"
proof -
  have c: "unat (twi0TxBufferIndex s) < length (twi0TxBuffer s)"
    if "twi0TxBufferIndex s < twi0TxBufferLength s"
    using that b l by (simp add: buffers_ok_def BUFF_SIZE_def word_less_nat_alt)
  from n show ?thesis
  proof
    assume "is1st s"
    with b k c show ?thesis
      by (simp add: twi0_irq_def TWI0_TWIS_vect_def s_status_def Let_def twis_write_def
          s_write_def s_ack_def buffers_ok_def)
  next
    assume "\<not> isRxNack st"
    with b k c show ?thesis
      by (simp add: twi0_irq_def TWI0_TWIS_vect_def s_status_def Let_def twis_write_def
          s_write_def s_ack_def buffers_ok_def)
  qed
qed

lemma mread_nack_step:
  assumes b: "buffers_ok s" and a: "SCTRLB (TWI0 s) = 3"
    and l: "unat (twi0TxBufferLength s) \<le> 32"
    and k: "twis_state st = TWIS_MREAD" and n: "isRxNack st" and f: "\<not> is1st s"
  shows "\<exists>s1. twi0_events [(st, d, room)] s = Some ([], s1) \<and> SCTRLB (TWI0 s1) = 6"
proof -
  have c: "unat (twi0TxBufferIndex s) < length (twi0TxBuffer s)"
    if "twi0TxBufferIndex s < twi0TxBufferLength s"
    using that b l by (simp add: buffers_ok_def BUFF_SIZE_def word_less_nat_alt)
  have r: "twis_raised (TWI0 s) st d"
    using k a by (simp add: twis_raised_def)
  show ?thesis
    using r k n f c
    by (simp add: twi0_irq_def TWI0_TWIS_vect_def s_status_def Let_def twis_write_def
        s_write_def s_nackComplete_def)
qed

lemma mread_run:
  assumes "buffers_ok s" "SCTRLB (TWI0 s) = 3" "unat (twi0TxBufferLength s) \<le> 32"
    "twi0TxBufferIndex s \<le> twi0TxBufferLength s"
    "\<forall>e\<in>set rs. twis_state (fst e) = TWIS_MREAD"
    "\<forall>e\<in>set (if is1st s then tl rs else rs). \<not> isRxNack (fst e)"
  shows "\<exists>out s'. twi0_events rs s = Some (out, s') \<and> length out = length rs
           \<and> take (unat (twi0TxBufferLength s) - unat (twi0TxBufferIndex s)) out =
               take (length rs)
                 (drop (unat (twi0TxBufferIndex s))
                    (take (unat (twi0TxBufferLength s)) (twi0TxBuffer s)))
           \<and> buffers_ok s' \<and> SCTRLB (TWI0 s') = 3
           \<and> twi0TxBufferLength s' = twi0TxBufferLength s
           \<and> (rs \<noteq> [] \<longrightarrow> \<not> is1st s')"
  using assms
proof (induction rs arbitrary: s)
  case Nil
  then show ?case by simp
next
  case (Cons e rs)
  obtain st d room where e: "e = (st, d, room)"
    by (cases e) auto
  from Cons.prems(5) have k: "twis_state st = TWIS_MREAD"
    by (simp add: e)
  from Cons.prems(6) have n: "is1st s \<or> \<not> isRxNack st"
    by (cases "is1st s") (simp_all add: e)
  from Cons.prems(6) have nr: "\<forall>e\<in>set rs. \<not> isRxNack (fst e)"
    by (cases "is1st s") (simp_all add: e)
  have r: "twis_raised (TWI0 s) st d"
    using k Cons.prems(2) by (simp add: twis_raised_def)
  from mread_step [OF Cons.prems(1,2,3) k n, of d room] obtain s1 where
    s1: "twi0_irq (st, d, room) s = Some s1" "buffers_ok s1" "SCTRLB (TWI0 s1) = 3"
      "twi0TxBuffer s1 = twi0TxBuffer s" "twi0TxBufferLength s1 = twi0TxBufferLength s"
      "twi0TxBufferIndex s1 =
               (if twi0TxBufferIndex s < twi0TxBufferLength s then twi0TxBufferIndex s + 1
                else twi0TxBufferIndex s)"
      "SDATA (TWI0 s1) =
               (if twi0TxBufferIndex s < twi0TxBufferLength s
                then twi0TxBuffer s ! unat (twi0TxBufferIndex s) else d)"
    and f1: "\<not> is1st s1"
    by blast
  have p5: "\<forall>e\<in>set rs. twis_state (fst e) = TWIS_MREAD"
    using Cons.prems(5) by simp
  have p6: "\<forall>e\<in>set (if is1st s1 then tl rs else rs). \<not> isRxNack (fst e)"
    using nr f1 by simp
  have p3: "unat (twi0TxBufferLength s1) \<le> 32"
    using Cons.prems(3) by (simp add: s1)
  define len where "len = unat (twi0TxBufferLength s)"
  define i where "i = unat (twi0TxBufferIndex s)"
  have il: "i \<le> len" "len \<le> 32"
    using Cons.prems(3,4) by (simp_all add: len_def i_def word_le_nat_alt)
  have tl: "length (twi0TxBuffer s) = 32"
    using Cons.prems(1) by (simp add: buffers_ok_def BUFF_SIZE_def)
  show ?case
  proof (cases "twi0TxBufferIndex s < twi0TxBufferLength s")
    case True
    then have lt: "i < len"
      by (simp add: len_def i_def word_less_nat_alt)
    then have i1: "unat (twi0TxBufferIndex s + 1) = Suc i"
      using il by (simp add: i_def unat_succ_byte)
    have le1: "twi0TxBufferIndex s1 \<le> twi0TxBufferLength s1"
      using True lt i1 by (simp add: s1 word_le_nat_alt len_def)
    from Cons.IH [OF s1(2,3) p3 le1 p5 p6] obtain out s2 where
      o: "twi0_events rs s1 = Some (out, s2)" "length out = length rs"
        "take (len - Suc i) out =
           take (length rs) (drop (Suc i) (take len (twi0TxBuffer s)))"
        "buffers_ok s2" "SCTRLB (TWI0 s2) = 3"
        "twi0TxBufferLength s2 = twi0TxBufferLength s"
        "rs \<noteq> [] \<longrightarrow> \<not> is1st s2"
      using True i1 by (auto simp: s1 len_def)
    have f2: "\<not> is1st s2"
      using o(1,7) f1 by (cases rs) simp_all
    have d: "drop i (take len (twi0TxBuffer s)) =
               twi0TxBuffer s ! i # drop (Suc i) (take len (twi0TxBuffer s))"
      using Cons_nth_drop_Suc [of i "take len (twi0TxBuffer s)"] lt il tl by simp
    have m: "len - i = Suc (len - Suc i)"
      using lt by simp
    show ?thesis
      using r o True f2
      by (simp add: e s1 k len_def [symmetric] i_def [symmetric] d m)
  next
    case False
    then have eq: "i = len"
      using il by (simp add: len_def i_def word_less_nat_alt)
    have le1: "twi0TxBufferIndex s1 \<le> twi0TxBufferLength s1"
      using False Cons.prems(4) by (simp add: s1)
    from Cons.IH [OF s1(2,3) p3 le1 p5 p6] obtain out s2 where
      o: "twi0_events rs s1 = Some (out, s2)" "length out = length rs"
        "buffers_ok s2" "SCTRLB (TWI0 s2) = 3"
        "twi0TxBufferLength s2 = twi0TxBufferLength s"
        "rs \<noteq> [] \<longrightarrow> \<not> is1st s2"
      using False by (auto simp: s1)
    have f2: "\<not> is1st s2"
      using o(1,6) f1 by (cases rs) simp_all
    show ?thesis
      using r o False f2
      by (simp add: e s1 k len_def [symmetric] i_def [symmetric] eq)
  qed
qed

lemma mread_silent:
  assumes "buffers_ok s" "SCTRLB (TWI0 s) = 3" "twi0TxBufferLength s = 0"
    "\<forall>e\<in>set rs. twis_state (fst e) = TWIS_MREAD"
    "\<forall>e\<in>set (if is1st s then tl rs else rs). \<not> isRxNack (fst e)"
  shows "\<exists>s'. twi0_events rs s = Some (map (fst \<circ> snd) rs, s')
           \<and> twi0TxBufferLength s' = 0"
  using assms
proof (induction rs arbitrary: s)
  case Nil
  then show ?case by simp
next
  case (Cons e rs)
  obtain st d room where e: "e = (st, d, room)"
    by (cases e) auto
  from Cons.prems(4) have k: "twis_state st = TWIS_MREAD"
    by (simp add: e)
  from Cons.prems(5) have n: "is1st s \<or> \<not> isRxNack st"
    by (cases "is1st s") (simp_all add: e)
  from Cons.prems(5) have nr: "\<forall>e\<in>set rs. \<not> isRxNack (fst e)"
    by (cases "is1st s") (simp_all add: e)
  have r: "twis_raised (TWI0 s) st d"
    using k Cons.prems(2) by (simp add: twis_raised_def)
  have l: "unat (twi0TxBufferLength s) \<le> 32"
    using Cons.prems(3) by simp
  from mread_step [OF Cons.prems(1,2) l k n, of d room] Cons.prems(3) obtain s1 where
    s1: "twi0_irq (st, d, room) s = Some s1" "buffers_ok s1" "SCTRLB (TWI0 s1) = 3"
      "twi0TxBufferLength s1 = 0" "SDATA (TWI0 s1) = d"
    and f1: "\<not> is1st s1"
    by auto
  have p4: "\<forall>e\<in>set rs. twis_state (fst e) = TWIS_MREAD"
    using Cons.prems(4) by simp
  have p5: "\<forall>e\<in>set (if is1st s1 then tl rs else rs). \<not> isRxNack (fst e)"
    using nr f1 by simp
  from Cons.IH [OF s1(2,3,4) p4 p5] obtain s2 where
    "twi0_events rs s1 = Some (map (fst \<circ> snd) rs, s2)" "twi0TxBufferLength s2 = 0"
    by blast
  with r s1 k show ?case
    by (simp add: e)
qed

lemma addr_step:
  assumes b: "buffers_ok s" and l: "unat (twi0RxBufferLength s) \<le> 32"
    and k: "twis_state sa = TWIS_ADDRESSED" and a: "drop_bit 1 da = fromHost_addr"
  shows "\<exists>s1. twi0_irq (sa, da, ra) s = Some s1 \<and> buffers_ok s1 \<and> SCTRLB (TWI0 s1) = 3
           \<and> is1st s1
           \<and> SADDR (TWI0 s1) = SADDR (TWI0 s) \<and> SADDRMASK (TWI0 s1) = SADDRMASK (TWI0 s)
           \<and> twi0RxBufferLength s1 = 0
           \<and> (twi0RxBufferLength s = 0 \<longrightarrow> twi0TxBufferLength s1 = twi0TxBufferLength s)
           \<and> (twi0RxBufferLength s \<noteq> 0 \<longrightarrow>
                twi0TxBufferLength s1 = twi0RxBufferLength s \<and> twi0TxBufferIndex s1 = 0
                \<and> take (unat (twi0RxBufferLength s)) (twi0TxBuffer s1) =
                    take (unat (twi0RxBufferLength s)) (twi0RxBuffer s))"
  using b l k a
  by (simp add: twi0_irq_def TWI0_TWIS_vect_def s_status_def s_read_def Let_def
      twis_lastAddress_def s_ack_def buffers_ok_def
      print_Op1_buf_if_possible_def move_buffer_def copy_loop_0 BUFF_SIZE_def)

lemma stop_step:
  assumes i: "twi0_inv s" and k: "twis_state sp = TWIS_STOPPED"
  shows "\<exists>s1. twi0_irq (sp, dp, rp) s = Some s1 \<and> buffers_ok s1
           \<and> twi0RxBufferLength s1 = 0 \<and> twi0TxBufferLength s1 = 0
           \<and> SADDR (TWI0 s1) = SADDR (TWI0 s) \<and> SADDRMASK (TWI0 s1) = SADDRMASK (TWI0 s)"
  using i k
  by (simp add: twi0_irq_def TWI0_TWIS_vect_def s_status_def Let_def
      twis_lastAddress_def s_nackComplete_def twi0_inv_def buffers_ok_def uart1_put_def
      print_Op1_buf_if_possible_def print_Op2_buf_if_possible_def move_buffer_def
      copy_loop_0 BUFF_SIZE_def)

lemma mwrite_step:
  assumes b: "buffers_ok s" and a: "SCTRLB (TWI0 s) = 3"
    and l: "unat (twi0RxBufferLength s) < 32" and k: "twis_state st = TWIS_MWRITE"
  shows "\<exists>s1. twi0_irq (st, d, room) s = Some s1 \<and> buffers_ok s1
           \<and> twi0RxBuffer s1 = (twi0RxBuffer s)[unat (twi0RxBufferLength s) := d]
           \<and> unat (twi0RxBufferLength s1) = Suc (unat (twi0RxBufferLength s))
           \<and> SCTRLB (TWI0 s1) = (if Suc (unat (twi0RxBufferLength s)) < 32 then 3 else 6)
           \<and> SADDR (TWI0 s1) = SADDR (TWI0 s) \<and> SADDRMASK (TWI0 s1) = SADDRMASK (TWI0 s)"
  using b k l unat_succ_byte [OF l]
  by (simp add: twi0_irq_def TWI0_TWIS_vect_def s_status_def Let_def twis_read_def
      s_read_def s_nackComplete_def s_ack_def buffers_ok_def BUFF_SIZE_def)

lemma mwrite_run:
  assumes "buffers_ok s" "ws \<noteq> [] \<longrightarrow> SCTRLB (TWI0 s) = 3"
    "unat (twi0RxBufferLength s) + length ws \<le> 32"
    "\<forall>e\<in>set ws. twis_state (fst e) = TWIS_MWRITE"
  shows "\<exists>s'. twi0_events ws s = Some ([], s') \<and> buffers_ok s'
           \<and> unat (twi0RxBufferLength s') = unat (twi0RxBufferLength s) + length ws
           \<and> take (unat (twi0RxBufferLength s) + length ws) (twi0RxBuffer s') =
               take (unat (twi0RxBufferLength s)) (twi0RxBuffer s) @ map (fst \<circ> snd) ws
           \<and> SADDR (TWI0 s') = SADDR (TWI0 s) \<and> SADDRMASK (TWI0 s') = SADDRMASK (TWI0 s)"
  using assms
proof (induction ws arbitrary: s)
  case Nil
  then show ?case by simp
next
  case (Cons e ws)
  obtain st d room where e: "e = (st, d, room)"
    by (cases e) auto
  define n where "n = unat (twi0RxBufferLength s)"
  from Cons.prems have a: "SCTRLB (TWI0 s) = 3" and lt: "n < 32"
    and k: "twis_state st = TWIS_MWRITE"
    by (simp_all add: e n_def)
  have r: "twis_raised (TWI0 s) st d"
    using k a by (simp add: twis_raised_def)
  from mwrite_step [OF Cons.prems(1) a lt [unfolded n_def] k, of d room] obtain s1 where
    s1: "twi0_irq (st, d, room) s = Some s1" "buffers_ok s1"
      "twi0RxBuffer s1 = (twi0RxBuffer s)[n := d]"
      "unat (twi0RxBufferLength s1) = Suc n"
      "SCTRLB (TWI0 s1) = (if Suc n < 32 then 3 else 6)"
      "SADDR (TWI0 s1) = SADDR (TWI0 s)" "SADDRMASK (TWI0 s1) = SADDRMASK (TWI0 s)"
    unfolding n_def by blast
  have p2: "ws \<noteq> [] \<longrightarrow> SCTRLB (TWI0 s1) = 3"
    using Cons.prems(3) by (cases ws) (simp_all add: s1 n_def)
  have p3: "unat (twi0RxBufferLength s1) + length ws \<le> 32"
    using Cons.prems(3) by (simp add: s1 n_def)
  have p4: "\<forall>e\<in>set ws. twis_state (fst e) = TWIS_MWRITE"
    using Cons.prems(4) by simp
  from Cons.IH [OF s1(2) p2 p3 p4] obtain s2 where
    s2: "twi0_events ws s1 = Some ([], s2)" "buffers_ok s2"
      "unat (twi0RxBufferLength s2) = Suc n + length ws"
      "take (Suc n + length ws) (twi0RxBuffer s2) =
         take (Suc n) ((twi0RxBuffer s)[n := d]) @ map (fst \<circ> snd) ws"
      "SADDR (TWI0 s2) = SADDR (TWI0 s1)" "SADDRMASK (TWI0 s2) = SADDRMASK (TWI0 s1)"
    by (auto simp: s1)
  have len: "length (twi0RxBuffer s) = 32"
    using Cons.prems(1) by (simp add: buffers_ok_def BUFF_SIZE_def)
  have t: "take (Suc n) ((twi0RxBuffer s)[n := d]) = take n (twi0RxBuffer s) @ [d]"
    using lt len by (simp add: take_Suc_conv_app_nth)
  show ?case
    using r s1 s2 k t
    by (simp add: e n_def [symmetric])
qed

lemma echo_run:
  assumes b: "buffers_ok s" and m: "twis_address_match (TWI0 s) fromHost_addr"
    and z: "twi0RxBufferLength s = 0"
    and ka: "twis_state sa = TWIS_ADDRESSED" and aa: "drop_bit 1 da = fromHost_addr"
    and kb: "twis_state sb = TWIS_ADDRESSED" and ab: "drop_bit 1 db = fromHost_addr"
    and wn: "ws \<noteq> []" and wl: "length ws \<le> BUFF_SIZE"
    and wk: "\<forall>e\<in>set ws. twis_state (fst e) = TWIS_MWRITE"
    and rk: "\<forall>e\<in>set rs. twis_state (fst e) = TWIS_MREAD"
    and rn: "\<forall>e\<in>set (tl rs). \<not> isRxNack (fst e)"
    and fl: "length fin \<le> 1"
    and fk: "\<forall>e\<in>set fin. rs \<noteq> [] \<and> twis_state (fst e) = TWIS_MREAD \<and> isRxNack (fst e)"
  shows "\<exists>out s'. twi0_events ((sa, da, ra) # ws @ (sb, db, rb) # rs @ fin) s = Some (out, s')
          \<and> length out = length rs
          \<and> take (length ws) out = take (length rs) (map (fst \<circ> snd) ws)"
proof -
  from addr_step [OF b _ ka aa, of ra] z obtain s1 where
    s1: "twi0_irq (sa, da, ra) s = Some s1" "buffers_ok s1" "SCTRLB (TWI0 s1) = 3"
      "SADDR (TWI0 s1) = SADDR (TWI0 s)" "SADDRMASK (TWI0 s1) = SADDRMASK (TWI0 s)"
      "twi0RxBufferLength s1 = 0"
    by auto
  have ra: "twis_raised (TWI0 s) sa da"
    using ka aa m by (simp add: twis_raised_def)
  from mwrite_run [OF s1(2) _ _ wk] wl s1 obtain s2 where
    s2: "twi0_events ws s1 = Some ([], s2)" "buffers_ok s2"
      "unat (twi0RxBufferLength s2) = length ws"
      "take (length ws) (twi0RxBuffer s2) = map (fst \<circ> snd) ws"
      "SADDR (TWI0 s2) = SADDR (TWI0 s)" "SADDRMASK (TWI0 s2) = SADDRMASK (TWI0 s)"
    by (auto simp: BUFF_SIZE_def)
  have nz: "twi0RxBufferLength s2 \<noteq> 0"
    using s2(3) wn by (auto simp: unat_eq_0)
  have l2: "unat (twi0RxBufferLength s2) \<le> 32"
    using s2(3) wl by (simp add: BUFF_SIZE_def)
  from addr_step [OF s2(2) l2 kb ab, of rb] nz obtain s3 where
    s3: "twi0_irq (sb, db, rb) s2 = Some s3" "buffers_ok s3" "SCTRLB (TWI0 s3) = 3"
      "twi0TxBufferLength s3 = twi0RxBufferLength s2" "twi0TxBufferIndex s3 = 0"
      "take (length ws) (twi0TxBuffer s3) = map (fst \<circ> snd) ws"
    and f3: "is1st s3"
    by (auto simp: s2)
  have rb: "twis_raised (TWI0 s2) sb db"
    using kb ab m by (simp add: twis_raised_def twis_address_match_def s2)
  have l3: "unat (twi0TxBufferLength s3) \<le> 32"
    using l2 by (simp add: s3)
  have i3: "twi0TxBufferIndex s3 \<le> twi0TxBufferLength s3"
    by (simp add: s3)
  have n3: "\<forall>e\<in>set (if is1st s3 then tl rs else rs). \<not> isRxNack (fst e)"
    using rn f3 by simp
  from mread_run [OF s3(2,3) l3 i3 rk n3] obtain out s4 where
    s4: "twi0_events rs s3 = Some (out, s4)" "length out = length rs"
      "take (length ws) out = take (length rs) (map (fst \<circ> snd) ws)"
      "buffers_ok s4" "SCTRLB (TWI0 s4) = 3"
      "twi0TxBufferLength s4 = twi0TxBufferLength s3" "rs \<noteq> [] \<longrightarrow> \<not> is1st s4"
    by (auto simp: s3 s2)
  have "\<exists>s5. twi0_events fin s4 = Some ([], s5)"
  proof (cases fin)
    case Nil
    then show ?thesis by simp
  next
    case (Cons e es)
    with fl have es: "es = []" by simp
    obtain st d room where e: "e = (st, d, room)"
      by (cases e) auto
    from fk Cons have p: "rs \<noteq> []" "twis_state st = TWIS_MREAD" "isRxNack st"
      by (simp_all add: e)
    have l4: "unat (twi0TxBufferLength s4) \<le> 32"
      using l3 by (simp add: s4)
    from mread_nack_step [OF s4(4,5) l4 p(2,3), of d room] s4(7) p(1)
    show ?thesis
      by (auto simp: Cons es e)
  qed
  then obtain s5 where s5: "twi0_events fin s4 = Some ([], s5)"
    by blast
  show ?thesis
    using ra s1 s2 rb s3 s4 s5 ka kb
    by (simp add: twi0_events_append)
qed

lemma stop_read_silent:
  assumes i: "twi0_inv s" and m: "twis_address_match (TWI0 s) fromHost_addr"
    and kp: "twis_state sp = TWIS_STOPPED"
    and ka: "twis_state sa = TWIS_ADDRESSED" and aa: "drop_bit 1 da = fromHost_addr"
    and rk: "\<forall>e\<in>set rs. twis_state (fst e) = TWIS_MREAD"
    and rn: "\<forall>e\<in>set (tl rs). \<not> isRxNack (fst e)"
  shows "\<exists>s'. twi0_events ((sp, dp, rp) # (sa, da, ra) # rs) s
                 = Some (map (fst \<circ> snd) rs, s')
           \<and> twi0TxBufferLength s' = 0"
proof -
  from stop_step [OF i kp, of dp rp] obtain s1 where
    s1: "twi0_irq (sp, dp, rp) s = Some s1" "buffers_ok s1"
      "twi0RxBufferLength s1 = 0" "twi0TxBufferLength s1 = 0"
      "SADDR (TWI0 s1) = SADDR (TWI0 s)" "SADDRMASK (TWI0 s1) = SADDRMASK (TWI0 s)"
    by blast
  have rp: "twis_raised (TWI0 s) sp dp"
    using kp by (simp add: twis_raised_def)
  from addr_step [OF s1(2) _ ka aa, of ra] s1(3,4) obtain s2 where
    s2: "twi0_irq (sa, da, ra) s1 = Some s2" "buffers_ok s2" "SCTRLB (TWI0 s2) = 3"
      "twi0TxBufferLength s2 = 0"
    and f2: "is1st s2"
    by auto
  have ra: "twis_raised (TWI0 s1) sa da"
    using ka aa m by (simp add: twis_raised_def twis_address_match_def s1)
  have n2: "\<forall>e\<in>set (if is1st s2 then tl rs else rs). \<not> isRxNack (fst e)"
    using rn f2 by simp
  from mread_silent [OF s2(2,3,4) rk n2] obtain s3 where
    "twi0_events rs s2 = Some (map (fst \<circ> snd) rs, s3)" "twi0TxBufferLength s3 = 0"
    by blast
  with rp s1 ra s2 kp ka show ?thesis
    by simp
qed

lemma twi0_inv_setup: "twi0_inv (main_setup cnvrt_milli tick manager_reset)"
  using buffers_ok_reset
  by (simp add: twi0_inv_def buffers_ok_def main_setup_def Let_def ioWrite_def
      twis_init_def twi1s_init_def s_on_def s_irqAllOn_def s_gencall_def twis_off_def
      s_clearFlags_def s_off_def s_irqAllOff_def s1_on_def s1_irqAllOn_def s1_gencall_def
      twi1s_off_def s1_clearFlags_def s1_off_def s1_irqAllOff_def)
     (simp add: manager_reset_def TWI_reset_def)

text \<open>
  C10. After \<^verbatim>\<open>setup\<close> the application-facing slave recognises the address 42
  (\<^verbatim>\<open>fromHost_addr\<close>) and the general call 0, and no other. For either, the callback's
  test against \<^verbatim>\<open>fromApp_addr\<close> (41) fails: on every address event that the
  peripheral raises the callback answers false and the handler issues NACK with
  complete-transaction. So no data phase is ever opened, and after any run of events
  on that bus both its buffers are still empty and nothing has been sent.
\<close>

theorem app_bus_sessions_rejected:
  "app_bus_idle (main_setup cnvrt_milli tick manager_reset)
   \<and> (app_bus_idle s \<longrightarrow>
        (twis_address_match (TWI1 s) a \<longleftrightarrow> a = fromHost_addr \<or> a = 0)
        \<and> (twis_state st = TWIS_ADDRESSED \<and> twis_raised (TWI1 s) st d \<longrightarrow>
             (\<exists>sc s'. twi1sCallback room TWIS_ADDRESSED st
                         (s\<lparr>TWI1 := (TWI1 s)\<lparr>SSTATUS := st, SDATA := d\<rparr>,
                            s1_lastAddress := drop_bit 1 d, is1st_1 := True\<rparr>)
                        = Some (False, sc)
                \<and> twi1_irq (st, d, room) s = Some s' \<and> SCTRLB (TWI1 s') = 6
                \<and> app_bus_idle s'))
        \<and> (\<exists>s'. twi1_events evs s = Some ([], s') \<and> app_bus_idle s'
               \<and> twi1RxBufferLength s' = 0 \<and> twi1TxBufferLength s' = 0))"
proof (intro conjI impI)
  show "app_bus_idle (main_setup cnvrt_milli tick manager_reset)"
    by (rule app_bus_idle_setup)
next
  assume "app_bus_idle s"
  then show "twis_address_match (TWI1 s) a \<longleftrightarrow> a = fromHost_addr \<or> a = 0"
    by (rule app_match)
next
  assume "app_bus_idle s" "twis_state st = TWIS_ADDRESSED \<and> twis_raised (TWI1 s) st d"
  then show "\<exists>sc s'. twi1sCallback room TWIS_ADDRESSED st
                         (s\<lparr>TWI1 := (TWI1 s)\<lparr>SSTATUS := st, SDATA := d\<rparr>,
                            s1_lastAddress := drop_bit 1 d, is1st_1 := True\<rparr>)
                        = Some (False, sc)
                \<and> twi1_irq (st, d, room) s = Some s' \<and> SCTRLB (TWI1 s') = 6
                \<and> app_bus_idle s'"
    using app_addressed [of s st d room] by blast
next
  assume "app_bus_idle s"
  from app_run [OF this, of evs] obtain s' where
    "twi1_events evs s = Some ([], s')" "app_bus_idle s'"
    by blast
  then show "\<exists>s'. twi1_events evs s = Some ([], s') \<and> app_bus_idle s'
               \<and> twi1RxBufferLength s' = 0 \<and> twi1TxBufferLength s' = 0"
    by (auto simp: app_bus_idle_def)
qed

theorem app_bus_sessions_rejected_witness:
  "app_bus_idle manager_ready
   \<and> twis_state 0x61 = TWIS_ADDRESSED \<and> twis_raised (TWI1 manager_ready) 0x61 0x54
   \<and> \<not> twis_raised (TWI1 manager_ready) 0x61 0x52
   \<and> (\<exists>s'. twi1_irq (0x61, 0x54, True) manager_ready = Some s' \<and> SCTRLB (TWI1 s') = 6)
   \<and> (\<exists>s'. twi1_events app_probe manager_ready = Some ([], s')
          \<and> twi1RxBufferLength s' = 0 \<and> twi1TxBufferLength s' = 0)"
proof -
  have i: "app_bus_idle manager_ready"
    using app_bus_sessions_rejected [of id 0] by (simp add: manager_ready_def)
  have h: "twis_state 0x61 = TWIS_ADDRESSED" "twis_raised (TWI1 manager_ready) 0x61 0x54"
    "\<not> twis_raised (TWI1 manager_ready) 0x61 0x52"
    by code_simp+
  from app_bus_sessions_rejected [of id 0 manager_ready 0 "0x61" "0x54" True app_probe] i h
  show ?thesis by blast
qed








text \<open>
  The data branches of \<^verbatim>\<open>twi1sCallback\<close> as they are written: the master-read branch
  sends through \<^verbatim>\<open>twis_write\<close> and the master-write branch receives through
  \<^verbatim>\<open>twis_read\<close>, the access functions of TWI0, and the stop branch hands
  \<^verbatim>\<open>twis_lastAddress()\<close> to the diagnostic slots when a buffer of the application bus
  is non-empty. None of this is ever executed: the peripheral raises no data event on
  the application bus (lemma \<open>app_no_data\<close>), both buffers stay empty,
  and with empty buffers the stop branch reads neither last address.
\<close>

lemma twi1sCallback_data_branches_as_written:
  "(twi1TxBufferIndex s < twi1TxBufferLength s
      \<and> unat (twi1TxBufferIndex s) < length (twi1TxBuffer s) \<longrightarrow>
      (\<exists>s'. twi1sCallback room TWIS_MREAD st s = Some (True, s')
         \<and> SDATA (TWI0 s') = twi1TxBuffer s ! unat (twi1TxBufferIndex s)
         \<and> TWI1 s' = TWI1 s))
   \<and> (unat (twi1RxBufferLength s) < length (twi1RxBuffer s) \<longrightarrow>
        (\<exists>r s'. twi1sCallback room TWIS_MWRITE st s = Some (r, s')
           \<and> twi1RxBuffer s' ! unat (twi1RxBufferLength s) = SDATA (TWI0 s)))"
  by (simp add: twis_write_def s_write_def twis_read_def s_read_def Let_def)



text \<open>
  C2. The session invariant holds after \<^verbatim>\<open>setup\<close> and after every run of events on the
  host-facing bus: no handler accesses an array outside its bounds (the run has a
  result) and the receive length stays at or below 32. A master-write event in an open
  transaction stores the byte at the index given by the length, which is below 32, and
  adds one to the length; when that makes the length 32 the handler issues NACK with
  complete-transaction instead of ACK, after which the peripheral raises no further
  data event, so a 33rd byte is not stored. The callback answers whether the
  incremented length is still below 32.
\<close>

theorem receive_length_never_exceeds_capacity:
  "twi0_inv (main_setup cnvrt_milli tick manager_reset)
   \<and> (twi0_inv s \<longrightarrow>
        (\<exists>out s'. twi0_events evs s = Some (out, s') \<and> twi0_inv s'
           \<and> unat (twi0RxBufferLength s') \<le> BUFF_SIZE
           \<and> length (twi0RxBuffer s') = BUFF_SIZE))
   \<and> (buffers_ok s \<and> SCTRLB (TWI0 s) = 3 \<and> unat (twi0RxBufferLength s) < BUFF_SIZE
        \<and> twis_state st = TWIS_MWRITE \<longrightarrow>
        (\<exists>s'. twi0_irq (st, d, room) s = Some s'
           \<and> twi0RxBuffer s' = (twi0RxBuffer s)[unat (twi0RxBufferLength s) := d]
           \<and> unat (twi0RxBufferLength s') = Suc (unat (twi0RxBufferLength s))
           \<and> SCTRLB (TWI0 s') = (if Suc (unat (twi0RxBufferLength s)) < BUFF_SIZE then 3 else 6)
           \<and> (unat (twi0RxBufferLength s') = BUFF_SIZE \<longrightarrow> \<not> twis_raised (TWI0 s') st d)))
   \<and> (unat (twi0RxBufferLength s) < length (twi0RxBuffer s) \<longrightarrow>
        (\<exists>s'. twisCallback room TWIS_MWRITE st s
                = Some (Suc (unat (twi0RxBufferLength s)) mod 256 < BUFF_SIZE, s')))"
proof (intro conjI impI)
  show "twi0_inv (main_setup cnvrt_milli tick manager_reset)"
    by (rule twi0_inv_setup)
next
  assume "twi0_inv s"
  from twi0_run [OF this, of evs] obtain out s' where
    "twi0_events evs s = Some (out, s')" "twi0_inv s'"
    by blast
  then show "\<exists>out s'. twi0_events evs s = Some (out, s') \<and> twi0_inv s'
           \<and> unat (twi0RxBufferLength s') \<le> BUFF_SIZE
           \<and> length (twi0RxBuffer s') = BUFF_SIZE"
    by (auto simp: twi0_inv_def buffers_ok_def)
next
  assume a: "buffers_ok s \<and> SCTRLB (TWI0 s) = 3 \<and> unat (twi0RxBufferLength s) < BUFF_SIZE
        \<and> twis_state st = TWIS_MWRITE"
  then have "\<exists>s1. twi0_irq (st, d, room) s = Some s1 \<and> buffers_ok s1
           \<and> twi0RxBuffer s1 = (twi0RxBuffer s)[unat (twi0RxBufferLength s) := d]
           \<and> unat (twi0RxBufferLength s1) = Suc (unat (twi0RxBufferLength s))
           \<and> SCTRLB (TWI0 s1) = (if Suc (unat (twi0RxBufferLength s)) < 32 then 3 else 6)
           \<and> SADDR (TWI0 s1) = SADDR (TWI0 s) \<and> SADDRMASK (TWI0 s1) = SADDRMASK (TWI0 s)"
    by (intro mwrite_step) (simp_all add: BUFF_SIZE_def)
  then obtain s1 where
    s1: "twi0_irq (st, d, room) s = Some s1"
      "twi0RxBuffer s1 = (twi0RxBuffer s)[unat (twi0RxBufferLength s) := d]"
      "unat (twi0RxBufferLength s1) = Suc (unat (twi0RxBufferLength s))"
      "SCTRLB (TWI0 s1) = (if Suc (unat (twi0RxBufferLength s)) < 32 then 3 else 6)"
    by blast
  have "unat (twi0RxBufferLength s1) = BUFF_SIZE \<longrightarrow> \<not> twis_raised (TWI0 s1) st d"
    using a s1 by (simp add: twis_raised_def BUFF_SIZE_def)
  with s1 show "\<exists>s'. twi0_irq (st, d, room) s = Some s'
           \<and> twi0RxBuffer s' = (twi0RxBuffer s)[unat (twi0RxBufferLength s) := d]
           \<and> unat (twi0RxBufferLength s') = Suc (unat (twi0RxBufferLength s))
           \<and> SCTRLB (TWI0 s') = (if Suc (unat (twi0RxBufferLength s)) < BUFF_SIZE then 3 else 6)
           \<and> (unat (twi0RxBufferLength s') = BUFF_SIZE \<longrightarrow> \<not> twis_raised (TWI0 s') st d)"
    by (simp add: BUFF_SIZE_def)
next
  assume "unat (twi0RxBufferLength s) < length (twi0RxBuffer s)"
  then show "\<exists>s'. twisCallback room TWIS_MWRITE st s
                = Some (Suc (unat (twi0RxBufferLength s)) mod 256 < BUFF_SIZE, s')"
    by (simp add: Let_def unat_word_ariths)
qed

theorem receive_length_never_exceeds_capacity_witness:
  "twi0_inv manager_ready
   \<and> (\<exists>out s'. twi0_events write33 manager_ready = Some (out, s') \<and> twi0_inv s'
         \<and> unat (twi0RxBufferLength s') \<le> BUFF_SIZE)
   \<and> twi0RxBufferLength (state_after (butlast write33) manager_ready) = 32
   \<and> SCTRLB (TWI0 (state_after (butlast write33) manager_ready)) = 6
   \<and> twi0RxBufferLength (state_after write33 manager_ready) = 32
   \<and> twi0RxBufferLength (state_after (take 32 write33) manager_ready) = 31
   \<and> SCTRLB (TWI0 (state_after (take 32 write33) manager_ready)) = 3"
proof -
  have i: "twi0_inv manager_ready"
    using receive_length_never_exceeds_capacity [of id 0] by (simp add: manager_ready_def)
  have v: "twi0RxBufferLength (state_after (butlast write33) manager_ready) = 32"
    "SCTRLB (TWI0 (state_after (butlast write33) manager_ready)) = 6"
    "twi0RxBufferLength (state_after write33 manager_ready) = 32"
    "twi0RxBufferLength (state_after (take 32 write33) manager_ready) = 31"
    "SCTRLB (TWI0 (state_after (take 32 write33) manager_ready)) = 3"
    by code_simp+
  from receive_length_never_exceeds_capacity [of id 0 manager_ready write33] i v
  show ?thesis by blast
qed

text \<open>
  C3, as the code has it. The host addresses the Manager (address 42) for writing and
  sends between 1 and 32 bytes; without a stop in between it addresses the Manager
  again and reads. The handler does not look at the acknowledge bit of the first read
  event, which is left over from the address phase; the host acknowledges every byte
  it has been sent after which it asks for another, and may end with a read event that
  carries its NACK. Then as many bytes are sent as the host asks for, and the first of
  them, up to the number received, are the received bytes in their order. The
  mechanism: an address event that finds the receive buffer non-empty copies it to the
  front of the transmit buffer, sets the transmit length to the receive length and the
  cursor and the receive length to zero. After a stop event it is otherwise, whatever
  was received before: when the host then addresses the Manager and reads, the
  transmit length is zero at every read event, the callback supplies no byte, and what
  goes out at each read event is what the data register holds when the event arrives.
\<close>

theorem echo_after_repeated_start:
  "(buffers_ok s \<and> twis_address_match (TWI0 s) fromHost_addr \<and> twi0RxBufferLength s = 0
      \<and> twis_state sa = TWIS_ADDRESSED \<and> drop_bit 1 da = fromHost_addr
      \<and> twis_state sb = TWIS_ADDRESSED \<and> drop_bit 1 db = fromHost_addr
      \<and> ws \<noteq> [] \<and> length ws \<le> BUFF_SIZE
      \<and> (\<forall>e\<in>set ws. twis_state (fst e) = TWIS_MWRITE)
      \<and> (\<forall>e\<in>set rs. twis_state (fst e) = TWIS_MREAD)
      \<and> (\<forall>e\<in>set (tl rs). \<not> isRxNack (fst e))
      \<and> length fin \<le> 1
      \<and> (\<forall>e\<in>set fin. rs \<noteq> [] \<and> twis_state (fst e) = TWIS_MREAD \<and> isRxNack (fst e)) \<longrightarrow>
      (\<exists>out s'. twi0_events ((sa, da, ra) # ws @ (sb, db, rb) # rs @ fin) s = Some (out, s')
          \<and> length out = length rs
          \<and> take (length ws) out = take (length rs) (map (fst \<circ> snd) ws)))
   \<and> (buffers_ok s \<and> twi0RxBufferLength s \<noteq> 0 \<and> unat (twi0RxBufferLength s) \<le> BUFF_SIZE \<longrightarrow>
        (\<exists>s'. twisCallback room TWIS_ADDRESSED st s = Some (twis_lastAddress s = fromHost_addr, s')
           \<and> twi0RxBufferLength s' = 0 \<and> twi0TxBufferLength s' = twi0RxBufferLength s
           \<and> twi0TxBufferIndex s' = 0
           \<and> twi0TxBuffer s' =
               take (unat (twi0RxBufferLength s)) (twi0RxBuffer s)
               @ drop (unat (twi0RxBufferLength s)) (twi0TxBuffer s)))
   \<and> (twi0_inv s \<and> twis_address_match (TWI0 s) fromHost_addr
        \<and> twis_state sp = TWIS_STOPPED
        \<and> twis_state sa = TWIS_ADDRESSED \<and> drop_bit 1 da = fromHost_addr
        \<and> (\<forall>e\<in>set rs. twis_state (fst e) = TWIS_MREAD)
        \<and> (\<forall>e\<in>set (tl rs). \<not> isRxNack (fst e)) \<longrightarrow>
        (\<exists>s'. twi0_events ((sp, dp, rp) # (sa, da, ra) # rs) s
                 = Some (map (fst \<circ> snd) rs, s')
           \<and> twi0TxBufferLength s' = 0))"
proof (intro conjI impI)
  assume "buffers_ok s \<and> twis_address_match (TWI0 s) fromHost_addr \<and> twi0RxBufferLength s = 0
      \<and> twis_state sa = TWIS_ADDRESSED \<and> drop_bit 1 da = fromHost_addr
      \<and> twis_state sb = TWIS_ADDRESSED \<and> drop_bit 1 db = fromHost_addr
      \<and> ws \<noteq> [] \<and> length ws \<le> BUFF_SIZE
      \<and> (\<forall>e\<in>set ws. twis_state (fst e) = TWIS_MWRITE)
      \<and> (\<forall>e\<in>set rs. twis_state (fst e) = TWIS_MREAD)
      \<and> (\<forall>e\<in>set (tl rs). \<not> isRxNack (fst e))
      \<and> length fin \<le> 1
      \<and> (\<forall>e\<in>set fin. rs \<noteq> [] \<and> twis_state (fst e) = TWIS_MREAD \<and> isRxNack (fst e))"
  then show "\<exists>out s'. twi0_events ((sa, da, ra) # ws @ (sb, db, rb) # rs @ fin) s = Some (out, s')
          \<and> length out = length rs
          \<and> take (length ws) out = take (length rs) (map (fst \<circ> snd) ws)"
    by (intro echo_run) simp_all
next
  assume "buffers_ok s \<and> twi0RxBufferLength s \<noteq> 0 \<and> unat (twi0RxBufferLength s) \<le> BUFF_SIZE"
  then show "\<exists>s'. twisCallback room TWIS_ADDRESSED st s = Some (twis_lastAddress s = fromHost_addr, s')
           \<and> twi0RxBufferLength s' = 0 \<and> twi0TxBufferLength s' = twi0RxBufferLength s
           \<and> twi0TxBufferIndex s' = 0
           \<and> twi0TxBuffer s' =
               take (unat (twi0RxBufferLength s)) (twi0RxBuffer s)
               @ drop (unat (twi0RxBufferLength s)) (twi0TxBuffer s)"
    by (simp add: Let_def buffers_ok_def print_Op1_buf_if_possible_def move_buffer_def
        copy_loop_0)
next
  assume "twi0_inv s \<and> twis_address_match (TWI0 s) fromHost_addr
        \<and> twis_state sp = TWIS_STOPPED
        \<and> twis_state sa = TWIS_ADDRESSED \<and> drop_bit 1 da = fromHost_addr
        \<and> (\<forall>e\<in>set rs. twis_state (fst e) = TWIS_MREAD)
        \<and> (\<forall>e\<in>set (tl rs). \<not> isRxNack (fst e))"
  then show "\<exists>s'. twi0_events ((sp, dp, rp) # (sa, da, ra) # rs) s
                 = Some (map (fst \<circ> snd) rs, s')
           \<and> twi0TxBufferLength s' = 0"
    by (intro stop_read_silent) simp_all
qed

theorem echo_after_repeated_start_witness:
  "buffers_ok manager_ready \<and> twis_address_match (TWI0 manager_ready) fromHost_addr
   \<and> twi0RxBufferLength manager_ready = 0
   \<and> twis_state 0x61 = TWIS_ADDRESSED \<and> drop_bit 1 (0x54 :: byte) = fromHost_addr
   \<and> twis_state 0x63 = TWIS_ADDRESSED \<and> drop_bit 1 (0x55 :: byte) = fromHost_addr
   \<and> twis_state 0xA0 = TWIS_MWRITE \<and> twis_state 0xB2 = TWIS_MREAD \<and> isRxNack 0xB2
   \<and> twis_state 0x40 = TWIS_STOPPED
   \<and> twi0_inv (state_after write7_open manager_ready)
   \<and> twis_address_match (TWI0 (state_after write7_open manager_ready)) fromHost_addr
   \<and> twi0RxBufferLength (state_after write7_open manager_ready) = 1
   \<and> (\<exists>s'. twi0_events
              ((0x61, 0x54, True) # [(0xA0, 0x07, True)] @ (0x63, 0x55, True)
                 # [(0xB2, 0x00, True)] @ [(0xB2, 0x00, True)])
              manager_ready = Some ([7], s'))
   \<and> (\<exists>s'. twi0_events ((0x40, 0x00, True) # (0x63, 0x55, True) # [(0xB2, 0x55, True)])
              (state_after write7_open manager_ready) = Some ([0x55], s')
          \<and> twi0TxBufferLength s' = 0)"
proof -
  have h: "buffers_ok manager_ready" "twis_address_match (TWI0 manager_ready) fromHost_addr"
    "twi0RxBufferLength manager_ready = 0"
    "twis_state 0x61 = TWIS_ADDRESSED" "drop_bit 1 (0x54 :: byte) = fromHost_addr"
    "twis_state 0x63 = TWIS_ADDRESSED" "drop_bit 1 (0x55 :: byte) = fromHost_addr"
    "twis_state 0xA0 = TWIS_MWRITE" "twis_state 0xB2 = TWIS_MREAD" "isRxNack 0xB2"
    "twis_state 0x40 = TWIS_STOPPED"
    "twi0_inv (state_after write7_open manager_ready)"
    "twis_address_match (TWI0 (state_after write7_open manager_ready)) fromHost_addr"
    "twi0RxBufferLength (state_after write7_open manager_ready) = 1"
    by code_simp+
  note thm1 = echo_after_repeated_start
         [where s = manager_ready and sa = "0x61" and da = "0x54" and sb = "0x63"
            and db = "0x55" and ws = "[(0xA0, 0x07, True)]" and rs = "[(0xB2, 0x00, True)]"
            and fin = "[(0xB2, 0x00, True)]" and ra = True and rb = True, THEN conjunct1]
  have p1: "buffers_ok manager_ready \<and> twis_address_match (TWI0 manager_ready) fromHost_addr
      \<and> twi0RxBufferLength manager_ready = 0
      \<and> twis_state 0x61 = TWIS_ADDRESSED \<and> drop_bit 1 (0x54 :: byte) = fromHost_addr
      \<and> twis_state 0x63 = TWIS_ADDRESSED \<and> drop_bit 1 (0x55 :: byte) = fromHost_addr
      \<and> [(0xA0 :: byte, 0x07 :: byte, True)] \<noteq> []
      \<and> length [(0xA0 :: byte, 0x07 :: byte, True)] \<le> BUFF_SIZE
      \<and> (\<forall>e\<in>set [(0xA0 :: byte, 0x07 :: byte, True)]. twis_state (fst e) = TWIS_MWRITE)
      \<and> (\<forall>e\<in>set [(0xB2 :: byte, 0x00 :: byte, True)]. twis_state (fst e) = TWIS_MREAD)
      \<and> (\<forall>e\<in>set (tl [(0xB2 :: byte, 0x00 :: byte, True)]). \<not> isRxNack (fst e))
      \<and> length [(0xB2 :: byte, 0x00 :: byte, True)] \<le> 1
      \<and> (\<forall>e\<in>set [(0xB2 :: byte, 0x00 :: byte, True)].
            [(0xB2 :: byte, 0x00 :: byte, True)] \<noteq> [] \<and> twis_state (fst e) = TWIS_MREAD
            \<and> isRxNack (fst e))"
    using h by (simp add: BUFF_SIZE_def)
  from thm1 [rule_format, OF p1] obtain out s' where
    o: "twi0_events
          ((0x61, 0x54, True) # [(0xA0, 0x07, True)] @ (0x63, 0x55, True)
             # [(0xB2, 0x00, True)] @ [(0xB2, 0x00, True)])
          manager_ready = Some (out, s')"
      "length out = length [(0xB2 :: byte, 0x00 :: byte, True)]"
      "take (length [(0xA0 :: byte, 0x07 :: byte, True)]) out =
         take (length [(0xB2 :: byte, 0x00 :: byte, True)])
           (map (fst \<circ> snd) [(0xA0 :: byte, 0x07 :: byte, True)])"
    by blast
  from o(2,3) have "out = [7]"
    by (cases out) simp_all
  with o(1) have a: "\<exists>s'. twi0_events
              ((0x61, 0x54, True) # [(0xA0, 0x07, True)] @ (0x63, 0x55, True)
                 # [(0xB2, 0x00, True)] @ [(0xB2, 0x00, True)])
              manager_ready = Some ([7], s')"
    by blast
  note thm3 = echo_after_repeated_start
         [where s = "state_after write7_open manager_ready" and sa = "0x63" and da = "0x55"
            and rs = "[(0xB2, 0x55, True)]" and sp = "0x40" and dp = "0x00" and rp = True
            and ra = True, THEN conjunct2, THEN conjunct2]
  have p3: "twi0_inv (state_after write7_open manager_ready)
        \<and> twis_address_match (TWI0 (state_after write7_open manager_ready)) fromHost_addr
        \<and> twis_state 0x40 = TWIS_STOPPED
        \<and> twis_state 0x63 = TWIS_ADDRESSED \<and> drop_bit 1 (0x55 :: byte) = fromHost_addr
        \<and> (\<forall>e\<in>set [(0xB2 :: byte, 0x55 :: byte, True)]. twis_state (fst e) = TWIS_MREAD)
        \<and> (\<forall>e\<in>set (tl [(0xB2 :: byte, 0x55 :: byte, True)]). \<not> isRxNack (fst e))"
    using h by simp
  from thm3 [rule_format, OF p3] obtain s3 where
    "twi0_events ((0x40, 0x00, True) # (0x63, 0x55, True) # [(0xB2, 0x55, True)])
       (state_after write7_open manager_ready)
       = Some (map (fst \<circ> snd) [(0xB2 :: byte, 0x55 :: byte, True)], s3)"
    "twi0TxBufferLength s3 = 0"
    by blast
  then have b: "\<exists>s'. twi0_events ((0x40, 0x00, True) # (0x63, 0x55, True) # [(0xB2, 0x55, True)])
              (state_after write7_open manager_ready) = Some ([0x55], s')
          \<and> twi0TxBufferLength s' = 0"
    by (intro exI [of _ s3]) (simp del: twi0_events.simps)
  from a b h show ?thesis by blast
qed

text \<open>
  The statement of the specification fails for a read session that follows a write session
  ended by a stop: the stop event resets the receive length, the address event of the
  read session therefore copies nothing, the transmit length stays zero and the
  callback supplies no byte. What goes out is what the data register held, \<open>0xFF\<close>
  in one run and the address byte \<open>0x55\<close> in the other, not the byte 7 received
  before.
\<close>

theorem echo_across_stop_counterexample:
  "bytes_sent write7_stop manager_ready = Some []
   \<and> take 1 (twi0RxBuffer (state_after write7_stop manager_ready)) = [7]
   \<and> twi0RxBufferLength (state_after write7_stop manager_ready) = 0
   \<and> twi0TxBufferLength (state_after (write7_stop @ take 1 read1) manager_ready) = 0
   \<and> bytes_sent (write7_stop @ read1) manager_ready = Some [0xFF]
   \<and> bytes_sent (write7_stop @ read1_addr) manager_ready = Some [0x55]"
  by code_simp

end
